theory Spec2Isabelle
  imports Complex_Main
begin

section \<open>FlightBoard: data sources and enrichment\<close>

text \<open>
  A shallow embedding of \<^verbatim>\<open>data_sources.py\<close> (the provider wrapper
  \<^verbatim>\<open>fetch_flights\<close>) and of \<^verbatim>\<open>enrichment.py\<close> (the
  \<^verbatim>\<open>Enricher\<close> class). Python exceptions are values of \<open>py_exc\<close>;
  mutable objects are passed in and returned; the outside world (the clock, the raw
  feed of a provider, the HTTP replies of AirLabs, failures of SQLite) is a parameter
  of each operation.
\<close>

subsection \<open>Exceptions\<close>

datatype py_exc =
    ConnectionError
  | HTTPError int
  | JSONDecodeError
  | AttributeError
  | TypeError
  | KeyError
  | IndexError
  | ValueError
  | ImportError
  | StopIteration
  | SqliteError

subsection \<open>The Flight record (\<^verbatim>\<open>data_sources.py\<close>, class Flight)\<close>

text \<open>
  Python floats are modelled by \<open>real\<close>, Python ints by \<open>int\<close>. The truth value of a
  float \<open>x\<close> in a condition is \<open>x \<noteq> 0\<close>, that of a string is \<open>s \<noteq> []\<close>.
\<close>

record flight =
  callsign :: string
  airline :: string
  aircraft_type :: string
  registration :: string
  origin_iata :: string
  origin_name :: string
  destination_iata :: string
  destination_name :: string
  latitude :: real
  longitude :: real
  altitude :: int
  ground_speed :: int
  heading :: int
  vertical_speed :: int
  distance_nm :: real
  squawk :: string
  flight_id :: string
  on_ground :: bool
  hex_code :: string

definition Flight :: flight where
  "Flight = \<lparr> callsign = [], airline = [], aircraft_type = [], registration = [],
     origin_iata = [], origin_name = [], destination_iata = [], destination_name = [],
     latitude = 0, longitude = 0, altitude = 0, ground_speed = 0, heading = 0,
     vertical_speed = 0, distance_nm = 0, squawk = [], flight_id = [],
     on_ground = False, hex_code = [] \<rparr>"

subsection \<open>The provider base class (\<^verbatim>\<open>DataSource\<close>)\<close>

text \<open>
  The fields of a \<^verbatim>\<open>DataSource\<close> instance. \<open>sandbox\<close> is the extra field of
  \<^verbatim>\<open>FR24Source\<close> that its override of \<^verbatim>\<open>fetch_flights\<close> reads.
\<close>

record data_source =
  lat :: real
  lon :: real
  radius_nm :: real
  cache :: "flight list"
  last_fetch_time :: real
  cache_ttl :: real
  sandbox :: bool

text \<open>\<^verbatim>\<open>DataSource.__init__\<close>: empty cache, last fetch time 0, TTL 5 seconds.\<close>

definition DataSource :: "real \<Rightarrow> real \<Rightarrow> real \<Rightarrow> data_source" where
  "DataSource la lo r = \<lparr> lat = la, lon = lo, radius_nm = r, cache = [],
     last_fetch_time = 0, cache_ttl = 5, sandbox = False \<rparr>"

text \<open>
  The world of a provider. \<open>raw_feed k\<close> is what the \<open>k\<close>-th call of
  \<^verbatim>\<open>_fetch_raw\<close> of this process does: it raises, or it returns the unfiltered
  records. \<open>dist_nm la1 lo1 la2 lo2\<close> stands for the floating-point expression
  \<^verbatim>\<open>round(_haversine_nm(la1, lo1, la2, lo2), 1)\<close>, which returns a number or
  raises (\<^verbatim>\<open>math.asin\<close> and \<^verbatim>\<open>math.sin\<close> raise ValueError outside
  their domain). A NaN distance fails the test \<^verbatim>\<open>distance_nm <= radius_nm\<close>
  exactly as a distance above the radius does.
\<close>

type_synonym raw_feed = "nat \<Rightarrow> py_exc + flight list"
type_synonym dist_fun = "real \<Rightarrow> real \<Rightarrow> real \<Rightarrow> real \<Rightarrow> py_exc + real"

text \<open>The condition of the first \<^verbatim>\<open>continue\<close>: the record is taken to be on the ground.\<close>

definition grounded :: "flight \<Rightarrow> bool" where
  "grounded f = (on_ground f \<or> (altitude f < 100 \<and> ground_speed f < 50))"

text \<open>
  The \<^verbatim>\<open>for f in raw\<close> loop of \<^verbatim>\<open>DataSource.fetch_flights\<close>;
  \<open>flights\<close> is the list built so far. The assignment to \<^verbatim>\<open>f.distance_nm\<close>
  happens before the radius test.
\<close>

fun keep_in_radius ::
  "dist_fun \<Rightarrow> data_source \<Rightarrow> flight list \<Rightarrow> flight list \<Rightarrow> py_exc + flight list" where
  "keep_in_radius d s [] flights = Inr flights"
| "keep_in_radius d s (f # raw) flights =
     (if grounded f then keep_in_radius d s raw flights
      else if latitude f \<noteq> 0 \<and> longitude f \<noteq> 0 then
        (case d (lat s) (lon s) (latitude f) (longitude f) of
           Inl e \<Rightarrow> Inl e
         | Inr x \<Rightarrow>
             (let f' = f\<lparr>distance_nm := x\<rparr> in
              if distance_nm f' \<le> radius_nm s
              then keep_in_radius d s raw (flights @ [f'])
              else keep_in_radius d s raw flights))
      else keep_in_radius d s raw flights)"

text \<open>
  The body of the \<^verbatim>\<open>try\<close> block up to and including the sort, given the number
  \<open>n\<close> of raw fetches made so far. \<^verbatim>\<open>list.sort(key=...)\<close> is stable, as
  \<open>sort_key\<close> is.
\<close>

definition fetch_body :: "raw_feed \<Rightarrow> dist_fun \<Rightarrow> data_source \<Rightarrow> nat \<Rightarrow> py_exc + flight list" where
  "fetch_body raw_feed d s n =
     (case raw_feed n of
        Inl e \<Rightarrow> Inl e
      | Inr raw \<Rightarrow>
          (case keep_in_radius d s raw [] of
             Inl e \<Rightarrow> Inl e
           | Inr flights \<Rightarrow> Inr (sort_key distance_nm flights)))"

text \<open>The test that serves a call from the cache.\<close>

definition cache_fresh :: "real \<Rightarrow> data_source \<Rightarrow> bool" where
  "cache_fresh now s = (now - last_fetch_time s < cache_ttl s \<and> cache s \<noteq> [])"

text \<open>
  \<^verbatim>\<open>DataSource.fetch_flights\<close>. \<open>now\<close> is the reading of
  \<^verbatim>\<open>time.time()\<close>; \<open>n\<close> counts the calls of \<^verbatim>\<open>_fetch_raw\<close> made so
  far. The result is the returned list, the provider afterwards, and the new count.
  The \<^verbatim>\<open>except Exception\<close> clause returns \<^verbatim>\<open>self._cache\<close>.
\<close>

definition fetch_flights ::
  "raw_feed \<Rightarrow> dist_fun \<Rightarrow> real \<Rightarrow> data_source \<Rightarrow> nat \<Rightarrow> flight list \<times> data_source \<times> nat" where
  "fetch_flights raw_feed d now s n =
     (if cache_fresh now s then (cache s, s, n)
      else
        (case fetch_body raw_feed d s n of
           Inr flights \<Rightarrow> (flights, s\<lparr>cache := flights, last_fetch_time := now\<rparr>, Suc n)
         | Inl e \<Rightarrow> (cache s, s, Suc n)))"

subsection \<open>The override of \<^verbatim>\<open>FR24Source\<close>\<close>

fun fr24_keep ::
  "dist_fun \<Rightarrow> data_source \<Rightarrow> flight list \<Rightarrow> flight list \<Rightarrow> py_exc + flight list" where
  "fr24_keep d s [] flights = Inr flights"
| "fr24_keep d s (f # raw) flights =
     (if grounded f then fr24_keep d s raw flights
      else if latitude f \<noteq> 0 \<and> longitude f \<noteq> 0 then
        (case d (lat s) (lon s) (latitude f) (longitude f) of
           Inl e \<Rightarrow> Inl e
         | Inr x \<Rightarrow>
             (let f' = f\<lparr>distance_nm := x\<rparr> in
              if \<not> sandbox s \<and> distance_nm f' > radius_nm s
              then fr24_keep d s raw flights
              else fr24_keep d s raw (flights @ [f'])))
      else fr24_keep d s raw flights)"

definition fr24_fetch_body :: "raw_feed \<Rightarrow> dist_fun \<Rightarrow> data_source \<Rightarrow> nat \<Rightarrow> py_exc + flight list" where
  "fr24_fetch_body raw_feed d s n =
     (case raw_feed n of
        Inl e \<Rightarrow> Inl e
      | Inr raw \<Rightarrow>
          (case fr24_keep d s raw [] of
             Inl e \<Rightarrow> Inl e
           | Inr flights \<Rightarrow> Inr (sort_key distance_nm flights)))"

definition fr24_fetch_flights ::
  "raw_feed \<Rightarrow> dist_fun \<Rightarrow> real \<Rightarrow> data_source \<Rightarrow> nat \<Rightarrow> flight list \<times> data_source \<times> nat" where
  "fr24_fetch_flights raw_feed d now s n =
     (if cache_fresh now s then (cache s, s, n)
      else
        (case fr24_fetch_body raw_feed d s n of
           Inr flights \<Rightarrow> (flights, s\<lparr>cache := flights, last_fetch_time := now\<rparr>, Suc n)
         | Inl e \<Rightarrow> (cache s, s, Suc n)))"

text \<open>
  What the cache of a provider holds after any number of calls: records that passed the
  filter of the loop, with the distance the loop computed, in ascending order.
\<close>

definition in_range :: "dist_fun \<Rightarrow> data_source \<Rightarrow> flight \<Rightarrow> bool" where
  "in_range d s f =
     (\<not> grounded f \<and> latitude f \<noteq> 0 \<and> longitude f \<noteq> 0 \<and>
      d (lat s) (lon s) (latitude f) (longitude f) = Inr (distance_nm f) \<and>
      distance_nm f \<le> radius_nm s)"

definition cache_ok :: "dist_fun \<Rightarrow> data_source \<Rightarrow> bool" where
  "cache_ok d s = (sorted (map distance_nm (cache s)) \<and> list_all (in_range d s) (cache s))"

definition nonzero_coords :: "flight \<Rightarrow> bool" where
  "nonzero_coords f = (latitude f \<noteq> 0 \<and> longitude f \<noteq> 0)"

subsection \<open>Strings\<close>

text \<open>
  Python strings are modelled as lists of 8-bit characters, and the string methods used
  by the engine are modelled on ASCII: \<^verbatim>\<open>str.strip()\<close> removes the ASCII
  white space on both sides, \<^verbatim>\<open>upper()\<close> and \<^verbatim>\<open>lower()\<close> change
  the 26 letters, \<^verbatim>\<open>isalpha()\<close> holds of a non-empty string of letters.
\<close>

definition py_isspace :: "char \<Rightarrow> bool" where
  "py_isspace c = (let n = (of_char c :: nat) in (9 \<le> n \<and> n \<le> 13) \<or> (28 \<le> n \<and> n \<le> 32))"

definition py_strip :: "string \<Rightarrow> string" where
  "py_strip s = rev (dropWhile py_isspace (rev (dropWhile py_isspace s)))"

text \<open>\<^verbatim>\<open>s.strip(chars)\<close>: removes the characters of \<open>chars\<close> on both sides.\<close>

definition py_strip_chars :: "string \<Rightarrow> string \<Rightarrow> string" where
  "py_strip_chars chars s =
     rev (dropWhile (\<lambda>c. c \<in> set chars) (rev (dropWhile (\<lambda>c. c \<in> set chars) s)))"

text \<open>
  In ASCII a capital letter and its small letter differ in the bit of value 32 only
  (the sixth argument of \<open>Char\<close>, which lists the bits from the lowest).
\<close>

definition upper_char :: "char \<Rightarrow> char" where
  "upper_char c =
     (let n = (of_char c :: nat) in
      if 97 \<le> n \<and> n \<le> 122
      then (case c of Char b0 b1 b2 b3 b4 b5 b6 b7 \<Rightarrow> Char b0 b1 b2 b3 b4 False b6 b7)
      else c)"

definition lower_char :: "char \<Rightarrow> char" where
  "lower_char c =
     (let n = (of_char c :: nat) in
      if 65 \<le> n \<and> n \<le> 90
      then (case c of Char b0 b1 b2 b3 b4 b5 b6 b7 \<Rightarrow> Char b0 b1 b2 b3 b4 True b6 b7)
      else c)"

definition py_upper :: "string \<Rightarrow> string" where
  "py_upper s = map upper_char s"

definition py_lower :: "string \<Rightarrow> string" where
  "py_lower s = map lower_char s"

definition is_letter :: "char \<Rightarrow> bool" where
  "is_letter c = (let n = (of_char c :: nat) in (65 \<le> n \<and> n \<le> 90) \<or> (97 \<le> n \<and> n \<le> 122))"

definition py_isalpha :: "string \<Rightarrow> bool" where
  "py_isalpha s = (s \<noteq> [] \<and> list_all is_letter s)"

subsection \<open>The built-in table of airline designators\<close>

definition AIRLINE_ICAO_MAP :: "(string \<times> string) list" where
  "AIRLINE_ICAO_MAP = [
    (''AAL'', ''AMERICAN AIRLINES''), (''AAR'', ''ASIANA''),
    (''ACA'', ''AIR CANADA''), (''AFR'', ''AIR FRANCE''),
    (''AIC'', ''AIR INDIA''), (''AMX'', ''AEROMEXICO''),
    (''ANA'', ''ALL NIPPON AIRWAYS''), (''ASA'', ''ALASKA AIRLINES''),
    (''AUA'', ''AUSTRIAN''), (''AUI'', ''UKRAINE INTL''),
    (''AZA'', ''ALITALIA''), (''BAW'', ''BRITISH AIRWAYS''),
    (''BCS'', ''EUROPEAN AIR CHARTER''), (''BEE'', ''BEE LINE''),
    (''BEL'', ''BRUSSELS AIRLINES''), (''BER'', ''GERMANIA''),
    (''BOX'', ''AEROLOGIC''), (''CAL'', ''CHINA AIRLINES''),
    (''CCA'', ''AIR CHINA''), (''CES'', ''CHINA EASTERN''),
    (''CFG'', ''CONDOR''), (''CLH'', ''LUFTHANSA CARGO''),
    (''CPA'', ''CATHAY PACIFIC''), (''CSN'', ''CHINA SOUTHERN''),
    (''CTN'', ''CROATIA AIRLINES''), (''CXA'', ''XIAMEN AIR''),
    (''DAL'', ''DELTA''), (''DLH'', ''LUFTHANSA''),
    (''EAL'', ''EASTERN AIRWAYS''), (''EDW'', ''EDELWEISS AIR''),
    (''EIN'', ''AER LINGUS''), (''EJU'', ''EASYJET EUROPE''),
    (''ELY'', ''EL AL''), (''ETD'', ''ETIHAD''),
    (''ETH'', ''ETHIOPIAN''), (''EVA'', ''EVA AIR''),
    (''EWG'', ''EUROWINGS''), (''EXS'', ''JET2''),
    (''EZE'', ''EASYJET EUROPE''), (''EZS'', ''EASYJET SWITZERLAND''),
    (''EZY'', ''EASYJET''), (''FDB'', ''FLYDUBAI''),
    (''FDX'', ''FEDEX''), (''FIN'', ''FINNAIR''),
    (''GEC'', ''LUFTHANSA CARGO''), (''GIA'', ''GARUDA''),
    (''GTI'', ''ATLAS AIR''), (''GWI'', ''GERMANWINGS''),
    (''HAL'', ''HAWAIIAN''), (''HVN'', ''VIETNAM AIRLINES''),
    (''IBE'', ''IBERIA''), (''IBK'', ''NORWEGIAN''),
    (''ICE'', ''ICELANDAIR''), (''JAL'', ''JAPAN AIRLINES''),
    (''JBU'', ''JETBLUE''), (''KAL'', ''KOREAN AIR''),
    (''KLM'', ''KLM''), (''KQA'', ''KENYA AIRWAYS''),
    (''LAN'', ''LATAM CHILE''), (''LOG'', ''LOGANAIR''),
    (''LOT'', ''LOT POLISH''), (''LZB'', ''WIZZ AIR''),
    (''MAH'', ''MALEV''), (''MAS'', ''MALAYSIA AIRLINES''),
    (''MSR'', ''EGYPTAIR''), (''NAX'', ''NORWEGIAN''),
    (''NKS'', ''SPIRIT AIRLINES''), (''NOZ'', ''NORWEGIAN AIR''),
    (''NPT'', ''WEST ATLANTIC''), (''OAL'', ''OLYMPIC''),
    (''PAC'', ''POLAR AIR CARGO''), (''PGT'', ''PEGASUS''),
    (''PIA'', ''PIA''), (''QFA'', ''QANTAS''),
    (''QTR'', ''QATAR AIRWAYS''), (''RAM'', ''ROYAL AIR MAROC''),
    (''ROT'', ''TAROM''), (''RYR'', ''RYANAIR''),
    (''RZO'', ''SAUDIA''), (''SAA'', ''SOUTH AFRICAN''),
    (''SAS'', ''SAS''), (''SIA'', ''SINGAPORE AIRLINES''),
    (''SKW'', ''SKYWEST''), (''SLK'', ''SILK AIR''),
    (''SQC'', ''SINGAPORE CARGO''), (''SWA'', ''SOUTHWEST''),
    (''SWR'', ''SWISS''), (''TAM'', ''LATAM BRASIL''),
    (''TAP'', ''TAP PORTUGAL''), (''THA'', ''THAI''),
    (''THY'', ''TURKISH AIRLINES''), (''TOM'', ''TUI''),
    (''TSC'', ''AIR TRANSAT''), (''TUI'', ''TUI FLY''),
    (''TVF'', ''TRANSAVIA FRANCE''), (''UAE'', ''EMIRATES''),
    (''UAL'', ''UNITED''), (''UPS'', ''UPS''),
    (''UZB'', ''UZBEKISTAN AIRWAYS''), (''VIR'', ''VIRGIN ATLANTIC''),
    (''VLG'', ''VUELING''), (''VOE'', ''VOLOTEA''),
    (''VOI'', ''VOLARIS''), (''VTG'', ''VOLGA-DNEPR''),
    (''WJA'', ''WESTJET''), (''WZZ'', ''WIZZ AIR''),
    (''WUK'', ''WIZZ AIR UK'')
  ]"

subsection \<open>JSON values and the HTTP replies of AirLabs\<close>

datatype json =
    JNull
  | JBool bool
  | JNum real
  | JStr string
  | JArr "json list"
  | JObj "(string \<times> json) list"

text \<open>The truth value of a decoded JSON value in a Python condition.\<close>

fun truthy :: "json \<Rightarrow> bool" where
  "truthy JNull = False"
| "truthy (JBool b) = b"
| "truthy (JNum x) = (x \<noteq> 0)"
| "truthy (JStr s) = (s \<noteq> [])"
| "truthy (JArr xs) = (xs \<noteq> [])"
| "truthy (JObj kvs) = (kvs \<noteq> [])"

text \<open>
  \<^verbatim>\<open>v.get(key, default)\<close>: only a dict has the method; of a repeated key the
  decoder keeps the last value.
\<close>

fun get_default :: "json \<Rightarrow> string \<Rightarrow> json \<Rightarrow> py_exc + json" where
  "get_default (JObj kvs) key dflt =
     Inr (case map_of (rev kvs) key of Some v \<Rightarrow> v | None \<Rightarrow> dflt)"
| "get_default v key dflt = Inl AttributeError"

text \<open>\<^verbatim>\<open>(item.get(key) or "").strip()\<close>\<close>

definition str_field :: "json \<Rightarrow> string \<Rightarrow> py_exc + string" where
  "str_field item key =
     (case get_default item key JNull of
        Inl e \<Rightarrow> Inl e
      | Inr v \<Rightarrow>
          if truthy v then (case v of JStr s \<Rightarrow> Inr (py_strip s) | _ \<Rightarrow> Inl AttributeError)
          else Inr [])"

text \<open>\<^verbatim>\<open>(item.get(key) or "").lower().strip()\<close>\<close>

definition str_field_lower :: "json \<Rightarrow> string \<Rightarrow> py_exc + string" where
  "str_field_lower item key =
     (case get_default item key JNull of
        Inl e \<Rightarrow> Inl e
      | Inr v \<Rightarrow>
          if truthy v then (case v of JStr s \<Rightarrow> Inr (py_strip (py_lower s)) | _ \<Rightarrow> Inl AttributeError)
          else Inr [])"

text \<open>\<^verbatim>\<open>v[0]\<close>\<close>

fun subscript0 :: "json \<Rightarrow> py_exc + json" where
  "subscript0 (JArr (x # xs)) = Inr x"
| "subscript0 (JArr []) = Inl IndexError"
| "subscript0 (JStr (c # cs)) = Inr (JStr [c])"
| "subscript0 (JStr []) = Inl IndexError"
| "subscript0 (JObj kvs) = Inl KeyError"
| "subscript0 v = Inl TypeError"

datatype request = GetFlights string | GetAirport string

text \<open>
  What \<^verbatim>\<open>session.get\<close> does: it raises (no connection, timeout), or it returns
  a response with a status code and a body, which is JSON or not.
\<close>

datatype http_reply = NoReply | Reply int "json option"

definition raise_for_status :: "int \<Rightarrow> py_exc + unit" where
  "raise_for_status status = (if 400 \<le> status \<and> status < 600 then Inl (HTTPError status) else Inr ())"

definition json_body :: "json option \<Rightarrow> py_exc + json" where
  "json_body body = (case body of None \<Rightarrow> Inl JSONDecodeError | Some data \<Rightarrow> Inr data)"

subsection \<open>The persistent store\<close>

record aircraft_row =
  ac_registration :: string
  ac_typecode :: string
  ac_model :: string
  ac_operator :: string
  ac_operator_icao :: string
  ac_operator_iata :: string
  ac_owner :: string
  ac_source :: string
  ac_updated_at :: real

record route_row =
  rt_dep_iata :: string
  rt_dep_icao :: string
  rt_dep_name :: string
  rt_arr_iata :: string
  rt_arr_icao :: string
  rt_arr_name :: string
  rt_airline_name :: string
  rt_aircraft_icao :: string
  rt_flight_iata :: string
  rt_source :: string
  rt_updated_at :: real

record airport_row =
  ap_icao :: string
  ap_name :: string
  ap_city :: string
  ap_country :: string
  ap_lat :: json
  ap_lon :: json
  ap_source :: string
  ap_updated_at :: real

type_synonym aircraft_table = "string \<rightharpoonup> aircraft_row"

datatype db_op =
    SelectAircraft | SelectRoute | SelectAirport
  | WriteAircraft | WriteRoute | WriteAirport

subsection \<open>The engine (\<^verbatim>\<open>class Enricher\<close>)\<close>

text \<open>
  The fields of an \<^verbatim>\<open>Enricher\<close>. \<open>conn\<close> tells whether \<^verbatim>\<open>self._conn\<close>
  is set; the three tables are the content of the database behind it.
  \<open>requests_sent\<close> is not a field of the source: it records every call of
  \<^verbatim>\<open>session.get\<close> the engine has made, in order.
\<close>

record enricher =
  conn :: bool
  aircraft :: aircraft_table
  routes :: "string \<rightharpoonup> route_row"
  airports :: "string \<rightharpoonup> airport_row"
  airlabs_key :: string
  route_miss_cache :: "string set"
  api_calls_this_session :: int
  max_api_calls :: int
  requests_sent :: "request list"

text \<open>\<^verbatim>\<open>Enricher.__init__\<close> followed by \<^verbatim>\<open>setup()\<close> on an empty database.\<close>

definition Enricher :: "string \<Rightarrow> int \<Rightarrow> enricher" where
  "Enricher key max_calls = \<lparr> conn = True, aircraft = Map.empty, routes = Map.empty,
     airports = Map.empty, airlabs_key = key, route_miss_cache = {},
     api_calls_this_session = 0, max_api_calls = max_calls, requests_sent = [] \<rparr>"

text \<open>
  The world of the engine during one call: the reading of \<^verbatim>\<open>time.time()\<close>, the
  reply to the \<open>k\<close>-th request of the session, and which statements SQLite fails
  (by kind and key).
\<close>

record world =
  clock :: real
  airlabs :: "nat \<Rightarrow> request \<Rightarrow> http_reply"
  sqlite_fails :: "db_op \<Rightarrow> string \<Rightarrow> bool"

text \<open>
  An action runs on the flight being enriched and the engine, returns a value or raises,
  and leaves both as they are at that moment.
\<close>

type_synonym 'a act = "flight \<times> enricher \<Rightarrow> (py_exc + 'a) \<times> (flight \<times> enricher)"

definition ret :: "'a \<Rightarrow> 'a act" where
  "ret x s = (Inr x, s)"

definition lift :: "py_exc + 'a \<Rightarrow> 'a act" where
  "lift r s = (r, s)"

definition bnd :: "'a act \<Rightarrow> ('a \<Rightarrow> 'b act) \<Rightarrow> 'b act" where
  "bnd m f s = (case m s of (Inl e, s') \<Rightarrow> (Inl e, s') | (Inr x, s') \<Rightarrow> f x s')"

text \<open>\<^verbatim>\<open>try: m except Exception as e: h\<close>\<close>

definition catch :: "'a act \<Rightarrow> (py_exc \<Rightarrow> 'a act) \<Rightarrow> 'a act" where
  "catch m h s = (case m s of (Inl e, s') \<Rightarrow> h e s' | (Inr x, s') \<Rightarrow> (Inr x, s'))"

definition get_flight :: "flight act" where
  "get_flight s = (Inr (fst s), s)"

definition get_self :: "enricher act" where
  "get_self s = (Inr (snd s), s)"

definition set_flight :: "(flight \<Rightarrow> flight) \<Rightarrow> unit act" where
  "set_flight g s = (Inr (), (g (fst s), snd s))"

definition set_self :: "(enricher \<Rightarrow> enricher) \<Rightarrow> unit act" where
  "set_self g s = (Inr (), (fst s, g (snd s)))"

text \<open>\<^verbatim>\<open>self._api_calls_this_session += 1\<close>\<close>

definition count_call :: "unit act" where
  "count_call = set_self (\<lambda>en. en\<lparr>api_calls_this_session := api_calls_this_session en + 1\<rparr>)"

text \<open>\<^verbatim>\<open>session.get(url, params)\<close>, returning the status code and the body.\<close>

definition session_get :: "world \<Rightarrow> request \<Rightarrow> (int \<times> json option) act" where
  "session_get w req s =
     (let en = snd s; s' = (fst s, en\<lparr>requests_sent := requests_sent en @ [req]\<rparr>) in
      case airlabs w (length (requests_sent en)) req of
        NoReply \<Rightarrow> (Inl ConnectionError, s')
      | Reply status body \<Rightarrow> (Inr (status, body), s'))"

text \<open>\<^verbatim>\<open>self._route_miss_cache.add(callsign)\<close>\<close>

definition miss_add :: "string \<Rightarrow> unit act" where
  "miss_add cs = set_self (\<lambda>en. en\<lparr>route_miss_cache := insert cs (route_miss_cache en)\<rparr>)"

text \<open>The SQL statements.\<close>

definition select_aircraft :: "world \<Rightarrow> string \<Rightarrow> aircraft_row option act" where
  "select_aircraft w hex s =
     (if sqlite_fails w SelectAircraft hex then (Inl SqliteError, s)
      else (Inr (aircraft (snd s) hex), s))"

definition select_route :: "world \<Rightarrow> string \<Rightarrow> real \<Rightarrow> route_row option act" where
  "select_route w cs since s =
     (if sqlite_fails w SelectRoute cs then (Inl SqliteError, s)
      else (Inr (case routes (snd s) cs of
                   None \<Rightarrow> None
                 | Some row \<Rightarrow> if rt_updated_at row > since then Some row else None), s))"

definition select_airport :: "world \<Rightarrow> string \<Rightarrow> airport_row option act" where
  "select_airport w iata s =
     (if sqlite_fails w SelectAirport iata then (Inl SqliteError, s)
      else (Inr (airports (snd s) iata), s))"

definition write_aircraft :: "world \<Rightarrow> string \<Rightarrow> aircraft_row \<Rightarrow> unit act" where
  "write_aircraft w hex row s =
     (if sqlite_fails w WriteAircraft hex then (Inl SqliteError, s)
      else (Inr (), (fst s, (snd s)\<lparr>aircraft := (aircraft (snd s))(hex \<mapsto> row)\<rparr>)))"

definition write_route :: "world \<Rightarrow> string \<Rightarrow> route_row \<Rightarrow> unit act" where
  "write_route w cs row s =
     (if sqlite_fails w WriteRoute cs then (Inl SqliteError, s)
      else (Inr (), (fst s, (snd s)\<lparr>routes := (routes (snd s))(cs \<mapsto> row)\<rparr>)))"

text \<open>SQLite binds None, numbers and strings; a list or a dict raises.\<close>

fun bindable :: "json \<Rightarrow> bool" where
  "bindable (JArr xs) = False"
| "bindable (JObj kvs) = False"
| "bindable v = True"

definition write_airport :: "world \<Rightarrow> string \<Rightarrow> airport_row \<Rightarrow> unit act" where
  "write_airport w iata row s =
     (if sqlite_fails w WriteAirport iata \<or> \<not> bindable (ap_lat row) \<or> \<not> bindable (ap_lon row)
      then (Inl SqliteError, s)
      else (Inr (), (fst s, (snd s)\<lparr>airports := (airports (snd s))(iata \<mapsto> row)\<rparr>)))"

subsection \<open>Enrichment logic\<close>

text \<open>The three assignments of step 1 of \<^verbatim>\<open>enrich\<close>, for a row found by hex code.\<close>

definition fill_from_aircraft :: "aircraft_row \<Rightarrow> flight \<Rightarrow> flight" where
  "fill_from_aircraft row f =
     (let f1 = (if registration f = [] \<and> ac_registration row \<noteq> []
                then f\<lparr>registration := ac_registration row\<rparr> else f);
          f2 = (if aircraft_type f1 = [] \<and> ac_typecode row \<noteq> []
                then f1\<lparr>aircraft_type := ac_typecode row\<rparr> else f1)
      in if airline f2 = []
         then f2\<lparr>airline := (if ac_operator row \<noteq> [] then ac_operator row
                               else if ac_owner row \<noteq> [] then ac_owner row else [])\<rparr>
         else f2)"

text \<open>\<^verbatim>\<open>Enricher._enrich_from_callsign\<close>\<close>

definition enrich_from_callsign :: "flight \<Rightarrow> flight" where
  "enrich_from_callsign f =
     (if airline f \<noteq> [] then f
      else
        (let cs = py_strip (callsign f) in
         if length cs \<ge> 4 then
           (let prefix = py_upper (take 3 cs) in
            if py_isalpha prefix then
              (case map_of AIRLINE_ICAO_MAP prefix of
                 Some name \<Rightarrow> f\<lparr>airline := name\<rparr>
               | None \<Rightarrow> f)
            else f)
         else f))"

text \<open>
  \<^verbatim>\<open>Enricher._apply_route\<close>. The block "Apply to current flight" of
  \<^verbatim>\<open>_lookup_route_airlabs\<close> is the same six statements on the route data it has
  just cached.
\<close>

definition apply_route :: "route_row \<Rightarrow> flight \<Rightarrow> flight" where
  "apply_route row f =
     (let f1 = (if origin_iata f = [] \<and> rt_dep_iata row \<noteq> []
                then f\<lparr>origin_iata := rt_dep_iata row\<rparr> else f);
          f2 = (if origin_name f1 = [] \<and> rt_dep_name row \<noteq> []
                then f1\<lparr>origin_name := rt_dep_name row\<rparr> else f1);
          f3 = (if destination_iata f2 = [] \<and> rt_arr_iata row \<noteq> []
                then f2\<lparr>destination_iata := rt_arr_iata row\<rparr> else f2);
          f4 = (if destination_name f3 = [] \<and> rt_arr_name row \<noteq> []
                then f3\<lparr>destination_name := rt_arr_name row\<rparr> else f3);
          f5 = (if airline f4 = [] \<and> rt_airline_name row \<noteq> []
                then f4\<lparr>airline := rt_airline_name row\<rparr> else f4)
      in if aircraft_type f5 = [] \<and> rt_aircraft_icao row \<noteq> []
         then f5\<lparr>aircraft_type := rt_aircraft_icao row\<rparr> else f5)"

text \<open>\<^verbatim>\<open>Enricher._cache_route\<close>; \<open>no_route\<close> is the row written for \<^verbatim>\<open>{}\<close>.\<close>

definition cache_route :: "world \<Rightarrow> string \<Rightarrow> route_row \<Rightarrow> unit act" where
  "cache_route w cs data =
     write_route w cs (data\<lparr>rt_source := ''airlabs'', rt_updated_at := clock w\<rparr>)"

definition no_route :: route_row where
  "no_route = \<lparr> rt_dep_iata = [], rt_dep_icao = [], rt_dep_name = [], rt_arr_iata = [],
     rt_arr_icao = [], rt_arr_name = [], rt_airline_name = [], rt_aircraft_icao = [],
     rt_flight_iata = [], rt_source = [], rt_updated_at = 0 \<rparr>"

text \<open>\<^verbatim>\<open>Enricher._cache_aircraft\<close>\<close>

definition cache_aircraft ::
  "world \<Rightarrow> string \<Rightarrow> string \<Rightarrow> string \<Rightarrow> string \<Rightarrow> string \<Rightarrow> unit act" where
  "cache_aircraft w hex reg typecode operator operator_icao =
     (if hex = [] then ret ()
      else
        bnd (select_aircraft w hex) (\<lambda>existing.
        case existing of
          Some ex \<Rightarrow>
            (let u1 = (reg \<noteq> [] \<and> ac_registration ex = []);
                 u2 = (typecode \<noteq> [] \<and> ac_typecode ex = []);
                 u3 = (operator \<noteq> [] \<and> ac_operator ex = []);
                 u4 = (operator_icao \<noteq> [] \<and> ac_operator_icao ex = [])
             in if u1 \<or> u2 \<or> u3 \<or> u4 then
                  write_aircraft w hex
                    (ex\<lparr>ac_registration := (if u1 then reg else ac_registration ex),
                        ac_typecode := (if u2 then typecode else ac_typecode ex),
                        ac_operator := (if u3 then operator else ac_operator ex),
                        ac_operator_icao := (if u4 then operator_icao else ac_operator_icao ex),
                        ac_source := ''api_enriched'',
                        ac_updated_at := clock w\<rparr>)
                else ret ())
        | None \<Rightarrow>
            write_aircraft w hex
              \<lparr> ac_registration = reg, ac_typecode = typecode, ac_model = [],
                ac_operator = operator, ac_operator_icao = operator_icao,
                ac_operator_iata = [], ac_owner = [], ac_source = ''api_enriched'',
                ac_updated_at = clock w \<rparr>))"

text \<open>
  The \<^verbatim>\<open>try\<close> block of \<^verbatim>\<open>Enricher._lookup_airport_name\<close>: the result is
  the name found, or the code when the response list is empty.
\<close>

definition airport_request :: "world \<Rightarrow> string \<Rightarrow> string act" where
  "airport_request w iata =
     bnd count_call (\<lambda>_.
     bnd (session_get w (GetAirport iata)) (\<lambda>(status, body).
     bnd (lift (raise_for_status status)) (\<lambda>_.
     bnd (lift (json_body body)) (\<lambda>data.
     bnd (lift (get_default data ''response'' (JArr []))) (\<lambda>airport_list.
     if truthy airport_list then
       bnd (lift (subscript0 airport_list)) (\<lambda>apt.
       bnd (lift (str_field apt ''name'')) (\<lambda>name.
       bnd (lift (str_field apt ''city'')) (\<lambda>city.
       bnd (lift (str_field apt ''country_code'')) (\<lambda>country.
       bnd (lift (str_field apt ''icao_code'')) (\<lambda>icao.
       bnd (lift (get_default apt ''lat'' (JNum 0))) (\<lambda>la.
       bnd (lift (get_default apt ''lng'' (JNum 0))) (\<lambda>lo.
       bnd (write_airport w iata
              \<lparr> ap_icao = icao, ap_name = name, ap_city = city, ap_country = country,
                ap_lat = la, ap_lon = lo, ap_source = ''airlabs'',
                ap_updated_at = clock w \<rparr>) (\<lambda>_.
       ret name))))))))
     else ret iata)))))"

text \<open>\<^verbatim>\<open>Enricher._lookup_airport_name\<close>\<close>

definition lookup_airport_name :: "world \<Rightarrow> string \<Rightarrow> string act" where
  "lookup_airport_name w iata =
     (if iata = [] then ret []
      else
        bnd (select_airport w iata) (\<lambda>row.
        case (case row of Some r \<Rightarrow> if ap_name r \<noteq> [] then Some (ap_name r) else None
                        | None \<Rightarrow> None) of
          Some name \<Rightarrow> ret name
        | None \<Rightarrow>
            bnd get_self (\<lambda>en.
            if airlabs_key en = [] then ret iata
            else if api_calls_this_session en \<ge> max_api_calls en then ret iata
            else catch (airport_request w iata) (\<lambda>e. ret iata))))"

text \<open>
  The part of \<^verbatim>\<open>_lookup_route_airlabs\<close> after a route was found: the aircraft
  data of the response item is cached.
\<close>

definition cache_item_aircraft :: "world \<Rightarrow> json \<Rightarrow> unit act" where
  "cache_item_aircraft w item =
     bnd (lift (str_field_lower item ''hex'')) (\<lambda>hex.
     if hex \<noteq> [] then
       bnd (lift (str_field item ''reg_number'')) (\<lambda>reg.
       bnd (lift (str_field item ''aircraft_icao'')) (\<lambda>ac_type.
       bnd (lift (str_field item ''airline_name'')) (\<lambda>operator.
       bnd (lift (str_field item ''airline_icao'')) (\<lambda>operator_icao.
       cache_aircraft w hex reg ac_type operator operator_icao))))
     else ret ())"

text \<open>The \<^verbatim>\<open>try\<close> block of \<^verbatim>\<open>Enricher._lookup_route_airlabs\<close>.\<close>

definition route_request :: "world \<Rightarrow> string \<Rightarrow> unit act" where
  "route_request w cs =
     bnd count_call (\<lambda>_.
     bnd (session_get w (GetFlights cs)) (\<lambda>(status, body).
     if status = 401 then set_self (\<lambda>en. en\<lparr>airlabs_key := []\<rparr>)
     else if status = 429 then set_self (\<lambda>en. en\<lparr>max_api_calls := 0\<rparr>)
     else
       bnd (lift (raise_for_status status)) (\<lambda>_.
       bnd (lift (json_body body)) (\<lambda>data.
       bnd (lift (get_default data ''response'' (JArr []))) (\<lambda>response_list.
       if \<not> truthy response_list then
         bnd (miss_add cs) (\<lambda>_. cache_route w cs no_route)
       else
         bnd (lift (subscript0 response_list)) (\<lambda>item.
         bnd (lift (str_field item ''dep_iata'')) (\<lambda>dep_iata.
         bnd (lift (str_field item ''arr_iata'')) (\<lambda>arr_iata.
         if dep_iata = [] \<and> arr_iata = [] then
           bnd (miss_add cs) (\<lambda>_. cache_route w cs no_route)
         else
           bnd (lift (str_field item ''dep_icao'')) (\<lambda>dep_icao.
           bnd (lift (str_field item ''arr_icao'')) (\<lambda>arr_icao.
           bnd (lift (str_field item ''airline_name'')) (\<lambda>airline_name.
           bnd (lift (str_field item ''aircraft_icao'')) (\<lambda>aircraft_icao.
           bnd (lift (str_field item ''flight_iata'')) (\<lambda>flight_iata.
           bnd (if dep_iata \<noteq> [] then lookup_airport_name w dep_iata else ret []) (\<lambda>dep_name.
           bnd (if arr_iata \<noteq> [] then lookup_airport_name w arr_iata else ret []) (\<lambda>arr_name.
           bnd (cache_route w cs
                  \<lparr> rt_dep_iata = dep_iata, rt_dep_icao = dep_icao, rt_dep_name = dep_name,
                    rt_arr_iata = arr_iata, rt_arr_icao = arr_icao, rt_arr_name = arr_name,
                    rt_airline_name = airline_name, rt_aircraft_icao = aircraft_icao,
                    rt_flight_iata = flight_iata, rt_source = [], rt_updated_at = 0 \<rparr>) (\<lambda>_.
           bnd (set_flight (apply_route
                  \<lparr> rt_dep_iata = dep_iata, rt_dep_icao = dep_icao, rt_dep_name = dep_name,
                    rt_arr_iata = arr_iata, rt_arr_icao = arr_icao, rt_arr_name = arr_name,
                    rt_airline_name = airline_name, rt_aircraft_icao = aircraft_icao,
                    rt_flight_iata = flight_iata, rt_source = [], rt_updated_at = 0 \<rparr>)) (\<lambda>_.
           cache_item_aircraft w item)))))))))))))))))"

text \<open>\<^verbatim>\<open>Enricher._lookup_route_airlabs\<close>\<close>

definition lookup_route_airlabs :: "world \<Rightarrow> string \<Rightarrow> unit act" where
  "lookup_route_airlabs w cs = catch (route_request w cs) (\<lambda>e. miss_add cs)"

text \<open>\<^verbatim>\<open>Enricher._enrich_route\<close>\<close>

definition enrich_route :: "world \<Rightarrow> string \<Rightarrow> unit act" where
  "enrich_route w cs =
     bnd (select_route w cs (clock w - 24 * 3600)) (\<lambda>row.
     case row of
       Some r \<Rightarrow> set_flight (apply_route r)
     | None \<Rightarrow>
         bnd get_self (\<lambda>en.
         if airlabs_key en = [] then ret ()
         else if cs \<in> route_miss_cache en then ret ()
         else if api_calls_this_session en \<ge> max_api_calls en then ret ()
         else lookup_route_airlabs w cs))"

text \<open>\<^verbatim>\<open>Enricher.enrich\<close>\<close>

definition enrich :: "world \<Rightarrow> unit act" where
  "enrich w =
     bnd get_self (\<lambda>en.
     if \<not> conn en then set_flight enrich_from_callsign
     else
       bnd get_flight (\<lambda>f.
       let hex = py_strip (py_lower (hex_code f));
           cs = py_upper (py_strip (callsign f))
       in
         bnd (if hex \<noteq> [] then
                bnd (select_aircraft w hex) (\<lambda>row.
                case row of
                  Some r \<Rightarrow> set_flight (fill_from_aircraft r)
                | None \<Rightarrow> ret ())
              else ret ()) (\<lambda>_.
         bnd (set_flight enrich_from_callsign) (\<lambda>_.
         bnd get_flight (\<lambda>f'.
         if cs \<noteq> [] \<and> (origin_iata f' = [] \<or> destination_iata f' = [])
         then enrich_route w cs
         else ret ())))))"

subsection \<open>Bulk seeding\<close>

text \<open>
  The CSV reader hands the import a header line and data lines, each a list of cells.
  \<open>col_map_of\<close> is the dict comprehension over \<^verbatim>\<open>enumerate(header)\<close>: of a
  repeated name the last index stays.
\<close>

definition quote_chars :: string where
  "quote_chars = [CHR 0x27, CHR 0x22]"

definition clean_header :: "string list \<Rightarrow> string list" where
  "clean_header header = map (\<lambda>h. py_strip_chars quote_chars (py_strip h)) header"

definition col_map_of :: "string list \<Rightarrow> (string \<rightharpoonup> nat)" where
  "col_map_of header = map_of (rev (zip header [0..<length header]))"

definition get_col :: "(string \<rightharpoonup> nat) \<Rightarrow> string list \<Rightarrow> string \<Rightarrow> string \<Rightarrow> string" where
  "get_col col_map row name dflt =
     (case col_map name of
        Some idx \<Rightarrow>
          if idx < length row then
            (let val = py_strip_chars quote_chars (py_strip (row ! idx)) in
             if val \<noteq> [] then val else dflt)
          else dflt
      | None \<Rightarrow> dflt)"

text \<open>The tuple appended to \<^verbatim>\<open>batch\<close> for a line with hex address \<open>hex\<close>.\<close>

definition csv_tuple ::
  "(string \<rightharpoonup> nat) \<Rightarrow> string \<Rightarrow> real \<Rightarrow> string list \<Rightarrow> string \<Rightarrow> string \<times> aircraft_row" where
  "csv_tuple col_map src now row hex =
     (hex, \<lparr> ac_registration = get_col col_map row ''registration'' [],
             ac_typecode = get_col col_map row ''typecode'' [],
             ac_model = get_col col_map row ''model'' [],
             ac_operator = get_col col_map row ''operator'' [],
             ac_operator_icao = get_col col_map row ''operatorIcao'' [],
             ac_operator_iata = get_col col_map row ''operatorIata'' [],
             ac_owner = get_col col_map row ''owner'' [],
             ac_source = src, ac_updated_at = now \<rparr>)"

text \<open>\<^verbatim>\<open>executemany("INSERT OR REPLACE INTO aircraft VALUES (...)", batch)\<close>\<close>

definition insert_or_replace :: "(string \<times> aircraft_row) list \<Rightarrow> aircraft_table \<Rightarrow> aircraft_table" where
  "insert_or_replace batch t = foldl (\<lambda>t' (hex, row). t'(hex \<mapsto> row)) t batch"

text \<open>
  The \<^verbatim>\<open>for row in reader\<close> loop of the two imports; \<open>min_len\<close> is \<open>3\<close> in
  \<^verbatim>\<open>_seed_from_opensky\<close>, which skips shorter lines, and \<open>0\<close> in
  \<^verbatim>\<open>seed_from_file\<close>, which has no such test.
\<close>

fun seed_rows ::
  "(string \<rightharpoonup> nat) \<Rightarrow> string \<Rightarrow> real \<Rightarrow> nat \<Rightarrow> string list list
     \<Rightarrow> (string \<times> aircraft_row) list \<Rightarrow> aircraft_table
     \<Rightarrow> (string \<times> aircraft_row) list \<times> aircraft_table" where
  "seed_rows col_map src now min_len [] batch t = (batch, t)"
| "seed_rows col_map src now min_len (row # rows) batch t =
     (if length row < min_len then seed_rows col_map src now min_len rows batch t
      else
        (let hex = py_lower (get_col col_map row ''icao24'' []) in
         if hex = [] then seed_rows col_map src now min_len rows batch t
         else
           (let batch' = batch @ [csv_tuple col_map src now row hex] in
            if length batch' \<ge> 5000
            then seed_rows col_map src now min_len rows [] (insert_or_replace batch' t)
            else seed_rows col_map src now min_len rows batch' t)))"

definition seed_csv ::
  "string \<Rightarrow> real \<Rightarrow> nat \<Rightarrow> string list list \<Rightarrow> aircraft_table \<Rightarrow> py_exc + aircraft_table" where
  "seed_csv src now min_len csv t =
     (case csv of
        [] \<Rightarrow> Inl StopIteration
      | header # rows \<Rightarrow>
          (case seed_rows (col_map_of (clean_header header)) src now min_len rows [] t of
             (batch, t') \<Rightarrow> Inr (if batch \<noteq> [] then insert_or_replace batch t' else t')))"

text \<open>
  \<^verbatim>\<open>Enricher.seed_from_file\<close>, on the table of aircraft. A statement that SQLite
  fails ends the import with its exception; the model is of an import whose statements
  run.
\<close>

definition seed_from_file :: "real \<Rightarrow> string list list \<Rightarrow> aircraft_table \<Rightarrow> py_exc + aircraft_table" where
  "seed_from_file now csv t = seed_csv ''csv_import'' now 0 csv t"

text \<open>
  \<^verbatim>\<open>Enricher._seed_from_opensky\<close>: \<open>download\<close> is the outcome of the HTTP
  download; every exception is caught and leaves the table as it is.
\<close>

definition seed_from_opensky ::
  "real \<Rightarrow> py_exc + string list list \<Rightarrow> aircraft_table \<Rightarrow> aircraft_table" where
  "seed_from_opensky now download t =
     (case download of
        Inl e \<Rightarrow> t
      | Inr csv \<Rightarrow> (case seed_csv ''opensky'' now 3 csv t of Inl e \<Rightarrow> t | Inr t' \<Rightarrow> t'))"

subsection \<open>Predicates of the properties\<close>

text \<open>
  \<open>fills f f'\<close>: the record \<open>f'\<close> is \<open>f\<close> with gaps filled in. Each of the
  seven fields the engine writes has its old value unless that value was empty, and
  every other field is unchanged.
\<close>

definition fills :: "flight \<Rightarrow> flight \<Rightarrow> bool" where
  "fills f f' =
     ((airline f \<noteq> [] \<longrightarrow> airline f' = airline f) \<and>
      (aircraft_type f \<noteq> [] \<longrightarrow> aircraft_type f' = aircraft_type f) \<and>
      (registration f \<noteq> [] \<longrightarrow> registration f' = registration f) \<and>
      (origin_iata f \<noteq> [] \<longrightarrow> origin_iata f' = origin_iata f) \<and>
      (origin_name f \<noteq> [] \<longrightarrow> origin_name f' = origin_name f) \<and>
      (destination_iata f \<noteq> [] \<longrightarrow> destination_iata f' = destination_iata f) \<and>
      (destination_name f \<noteq> [] \<longrightarrow> destination_name f' = destination_name f) \<and>
      callsign f' = callsign f \<and> latitude f' = latitude f \<and> longitude f' = longitude f \<and>
      altitude f' = altitude f \<and> ground_speed f' = ground_speed f \<and> heading f' = heading f \<and>
      vertical_speed f' = vertical_speed f \<and> distance_nm f' = distance_nm f \<and>
      squawk f' = squawk f \<and> flight_id f' = flight_id f \<and> on_ground f' = on_ground f \<and>
      hex_code f' = hex_code f)"

text \<open>
  \<open>never_emptied row row'\<close>: no text field of the row that was non-empty in \<open>row\<close> is
  empty in \<open>row'\<close>.
\<close>

definition never_emptied :: "aircraft_row \<Rightarrow> aircraft_row \<Rightarrow> bool" where
  "never_emptied row row' =
     ((ac_registration row \<noteq> [] \<longrightarrow> ac_registration row' \<noteq> []) \<and>
      (ac_typecode row \<noteq> [] \<longrightarrow> ac_typecode row' \<noteq> []) \<and>
      (ac_model row \<noteq> [] \<longrightarrow> ac_model row' \<noteq> []) \<and>
      (ac_operator row \<noteq> [] \<longrightarrow> ac_operator row' \<noteq> []) \<and>
      (ac_operator_icao row \<noteq> [] \<longrightarrow> ac_operator_icao row' \<noteq> []) \<and>
      (ac_operator_iata row \<noteq> [] \<longrightarrow> ac_operator_iata row' \<noteq> []) \<and>
      (ac_owner row \<noteq> [] \<longrightarrow> ac_owner row' \<noteq> []) \<and>
      (ac_source row \<noteq> [] \<longrightarrow> ac_source row' \<noteq> []))"

text \<open>
  \<open>table_kept t t'\<close>: every row of \<open>t\<close> is still in \<open>t'\<close>, under its hex address,
  with no field emptied.
\<close>

definition table_kept :: "aircraft_table \<Rightarrow> aircraft_table \<Rightarrow> bool" where
  "table_kept t t' =
     (\<forall>hex row. t hex = Some row \<longrightarrow> (\<exists>row'. t' hex = Some row' \<and> never_emptied row row'))"

text \<open>
  \<open>steps R m\<close>: from every state, the action \<open>m\<close> ends (by a return or by an
  exception) in a state related to it by \<open>R\<close>.
\<close>

definition steps :: "(flight \<times> enricher \<Rightarrow> flight \<times> enricher \<Rightarrow> bool) \<Rightarrow> 'a act \<Rightarrow> bool" where
  "steps R m = (\<forall>s. R s (snd (m s)))"

definition fills_rel :: "flight \<times> enricher \<Rightarrow> flight \<times> enricher \<Rightarrow> bool" where
  "fills_rel s s' = fills (fst s) (fst s')"

definition kept_rel :: "flight \<times> enricher \<Rightarrow> flight \<times> enricher \<Rightarrow> bool" where
  "kept_rel s s' = table_kept (aircraft (snd s)) (aircraft (snd s'))"

text \<open>The session budget is exhausted: the test of \<^verbatim>\<open>_enrich_route\<close>.\<close>

definition exhausted :: "enricher \<Rightarrow> bool" where
  "exhausted en = (api_calls_this_session en \<ge> max_api_calls en)"

text \<open>
  The loop of \<^verbatim>\<open>FlightBoard._poll_flights\<close> in \<^verbatim>\<open>main.py\<close>, over any
  number of polls: \<^verbatim>\<open>enrich\<close> is called on one flight after the other, an
  exception of a call is logged and the loop goes on. Each call has its own world.
\<close>

fun enrich_each :: "(world \<times> flight) list \<Rightarrow> enricher \<Rightarrow> enricher" where
  "enrich_each [] en = en"
| "enrich_each ((w, f) # calls) en = enrich_each calls (snd (snd (enrich w (f, en))))"

text \<open>
  What the spec calls an upsert keyed by hex address, on the lines of a CSV: the lines
  that have a hex address, each as its tuple, in the order of the file.
\<close>

definition csv_batch ::
  "(string \<rightharpoonup> nat) \<Rightarrow> string \<Rightarrow> real \<Rightarrow> nat \<Rightarrow> string list list \<Rightarrow> (string \<times> aircraft_row) list" where
  "csv_batch col_map src now min_len rows =
     map (\<lambda>row. csv_tuple col_map src now row (py_lower (get_col col_map row ''icao24'' [])))
       (filter (\<lambda>row. \<not> length row < min_len \<and> py_lower (get_col col_map row ''icao24'' []) \<noteq> []) rows)"

subsection \<open>Concrete inputs\<close>

text \<open>
  The inputs of the examples. The observer is at (51.5074, -0.1278) with a radius of
  10 nm; \<open>ex_dist\<close> puts a record at latitude 51.52 at 1.2 nm and any other record at
  15 nm. The engine \<open>ex_engine\<close> has an API key, a budget of 200 calls and one row of
  aircraft, for the hex address 4ca123.
\<close>

definition ex_source :: data_source where
  "ex_source = DataSource 51.5074 (-0.1278) 10"

definition ex_near :: flight where
  "ex_near = Flight\<lparr>callsign := ''BAW117'', latitude := 51.52, longitude := -0.15,
     altitude := 38000, ground_speed := 487\<rparr>"

definition ex_far :: flight where
  "ex_far = Flight\<lparr>callsign := ''AFR1234'', latitude := 51.75, longitude := -0.1,
     altitude := 35000, ground_speed := 460\<rparr>"

definition ex_dist :: dist_fun where
  "ex_dist la1 lo1 la2 lo2 = (if la2 = 51.52 then Inr 1.2 else Inr 15)"

definition ex_feed :: raw_feed where
  "ex_feed k = Inr [ex_far, ex_near]"

definition ex_taxi :: flight where
  "ex_taxi = Flight\<lparr>callsign := ''EZY6012'', latitude := 51.52, longitude := -0.15,
     altitude := 50, ground_speed := 20\<rparr>"

definition ex_rolling :: flight where
  "ex_rolling = Flight\<lparr>callsign := ''RYR4421'', latitude := 51.52, longitude := -0.15,
     altitude := 50, ground_speed := 80\<rparr>"

definition ex_parked :: flight where
  "ex_parked = Flight\<lparr>callsign := ''DLH902'', latitude := 51.52, longitude := -0.15,
     altitude := 38000, ground_speed := 487, on_ground := True\<rparr>"

definition ex_equator :: flight where
  "ex_equator = Flight\<lparr>callsign := ''KLM642'', latitude := 0, longitude := -0.15,
     altitude := 38000, ground_speed := 487\<rparr>"

definition ex_meridian :: flight where
  "ex_meridian = Flight\<lparr>callsign := ''UAE32'', latitude := 51.52, longitude := 0,
     altitude := 38000, ground_speed := 487\<rparr>"

definition ex_ground_feed :: raw_feed where
  "ex_ground_feed k = Inr [ex_parked, ex_taxi, ex_rolling]"

definition ex_zero_feed :: raw_feed where
  "ex_zero_feed k = Inr [ex_equator, ex_meridian, ex_near]"

definition ex_failing_feed :: raw_feed where
  "ex_failing_feed k = Inl ConnectionError"

definition ex_raising_dist :: dist_fun where
  "ex_raising_dist la1 lo1 la2 lo2 = Inl ValueError"

definition ex_empty_then_near :: raw_feed where
  "ex_empty_then_near k = (if k = 0 then Inr [] else Inr [ex_near])"

definition ex_cached :: data_source where
  "ex_cached = ex_source\<lparr>cache := [ex_near\<lparr>distance_nm := 1.2\<rparr>], last_fetch_time := 100\<rparr>"

definition ex_row :: aircraft_row where
  "ex_row = \<lparr> ac_registration = ''EI-DCP'', ac_typecode = ''B738'', ac_model = [],
     ac_operator = ''DIFFERENT'', ac_operator_icao = [], ac_operator_iata = [],
     ac_owner = [], ac_source = ''opensky'', ac_updated_at = 5 \<rparr>"

definition ex_engine :: enricher where
  "ex_engine = (Enricher ''key'' 200)\<lparr>aircraft := [''4ca123'' \<mapsto> ex_row]\<rparr>"

definition ex_ryanair :: flight where
  "ex_ryanair = Flight\<lparr>callsign := ''RYR4421'', airline := ''RYANAIR'', hex_code := ''4CA123''\<rparr>"

definition ex_unknown :: flight where
  "ex_unknown = Flight\<lparr>callsign := ''XYZ123''\<rparr>"

definition ex_item :: json where
  "ex_item = JObj [(''dep_iata'', JStr ''STN''), (''arr_iata'', JStr ''DUB''),
     (''airline_name'', JStr ''Ryanair''), (''hex'', JStr ''4CA123''),
     (''reg_number'', JStr ''EI-XXX''), (''airline_icao'', JStr ''RYR'')]"

definition ex_world :: world where
  "ex_world = \<lparr> clock = 1000000,
     airlabs = (\<lambda>k req. case req of
        GetFlights cs \<Rightarrow> Reply 200 (Some (JObj [(''response'', JArr [ex_item])]))
      | GetAirport iata \<Rightarrow> NoReply),
     sqlite_fails = (\<lambda>op key. False) \<rparr>"




definition ex_rate_limited :: world where
  "ex_rate_limited = ex_world\<lparr>airlabs := (\<lambda>k req. Reply 429 None)\<rparr>"

definition ex_cached_route :: route_row where
  "ex_cached_route = \<lparr> rt_dep_iata = ''STN'', rt_dep_icao = [], rt_dep_name = ''LONDON STANSTED'',
     rt_arr_iata = ''DUB'', rt_arr_icao = [], rt_arr_name = ''DUBLIN'', rt_airline_name = [],
     rt_aircraft_icao = [], rt_flight_iata = [], rt_source = ''airlabs'',
     rt_updated_at = 999000 \<rparr>"

definition ex_spent :: enricher where
  "ex_spent = ex_engine\<lparr>routes := [''RYR4421'' \<mapsto> ex_cached_route],
     api_calls_this_session := 200\<rparr>"

definition ex_csv :: "string list list" where
  "ex_csv = [[''icao24'', ''registration'', ''operator''], [''4CA123'', [], ''Ryanair'']]"

section \<open>Lemmas\<close>

subsection \<open>The loop of the provider\<close>

lemma grounded_distance [simp]: "grounded (f\<lparr>distance_nm := x\<rparr>) = grounded f"
  by (simp add: grounded_def)

lemma keep_in_radius_in_range:
  "keep_in_radius d s raw acc = Inr out \<Longrightarrow> list_all (in_range d s) acc
     \<Longrightarrow> list_all (in_range d s) out"
proof (induction raw arbitrary: acc)
  case Nil
  then show ?case by simp
next
  case (Cons f raw)
  then show ?case
    by (auto simp: in_range_def Let_def split: if_splits sum.splits)
qed

lemma keep_in_radius_acc:
  "keep_in_radius d s raw acc = Inr out \<Longrightarrow> set acc \<subseteq> set out"
proof (induction raw arbitrary: acc)
  case Nil
  then show ?case by simp
next
  case (Cons f raw)
  then show ?case
    by (fastforce simp: Let_def split: if_splits sum.splits)
qed

lemma keep_in_radius_includes:
  "keep_in_radius d s raw acc = Inr out \<Longrightarrow> r \<in> set raw \<Longrightarrow> \<not> grounded r
     \<Longrightarrow> latitude r \<noteq> 0 \<Longrightarrow> longitude r \<noteq> 0
     \<Longrightarrow> d (lat s) (lon s) (latitude r) (longitude r) = Inr x \<Longrightarrow> x \<le> radius_nm s
     \<Longrightarrow> r\<lparr>distance_nm := x\<rparr> \<in> set out"
proof (induction raw arbitrary: acc)
  case Nil
  then show ?case by simp
next
  case (Cons f raw)
  show ?case
  proof (cases "f = r")
    case True
    with Cons.prems have "keep_in_radius d s raw (acc @ [r\<lparr>distance_nm := x\<rparr>]) = Inr out"
      by (simp add: Let_def)
    from keep_in_radius_acc [OF this] show ?thesis by simp
  next
    case False
    with Cons.prems have "r \<in> set raw" by simp
    moreover from Cons.prems obtain acc' where "keep_in_radius d s raw acc' = Inr out"
      by (auto simp: Let_def split: if_splits sum.splits)
    ultimately show ?thesis using Cons.IH Cons.prems by blast
  qed
qed

lemma keep_in_radius_raises:
  "f \<in> set raw \<Longrightarrow> \<not> grounded f \<Longrightarrow> latitude f \<noteq> 0 \<Longrightarrow> longitude f \<noteq> 0
     \<Longrightarrow> isl (d (lat s) (lon s) (latitude f) (longitude f))
     \<Longrightarrow> isl (keep_in_radius d s raw acc)"
proof (induction raw arbitrary: acc)
  case Nil
  then show ?case by simp
next
  case (Cons g raw)
  then show ?case
    by (cases "g = f") (auto simp: Let_def split: sum.splits)
qed

lemma fr24_keep_raises:
  "f \<in> set raw \<Longrightarrow> \<not> grounded f \<Longrightarrow> latitude f \<noteq> 0 \<Longrightarrow> longitude f \<noteq> 0
     \<Longrightarrow> isl (d (lat s) (lon s) (latitude f) (longitude f))
     \<Longrightarrow> isl (fr24_keep d s raw acc)"
proof (induction raw arbitrary: acc)
  case Nil
  then show ?case by simp
next
  case (Cons g raw)
  then show ?case
    by (cases "g = f") (auto simp: Let_def split: sum.splits)
qed


lemma in_range_update [simp]:
  "in_range d (s\<lparr>cache := c, last_fetch_time := t\<rparr>) = in_range d s"
  by (simp add: in_range_def fun_eq_iff)

lemma fetch_body_ok:
  assumes "fetch_body raw_feed d s n = Inr out"
  shows "sorted (map distance_nm out) \<and> list_all (in_range d s) out"
proof -
  from assms obtain raw flights where
    k: "keep_in_radius d s raw [] = Inr flights" and o: "out = sort_key distance_nm flights"
    by (auto simp: fetch_body_def split: sum.splits)
  from keep_in_radius_in_range [OF k] have "list_all (in_range d s) flights" by simp
  with o show ?thesis by (simp add: list_all_iff)
qed

lemma fetch_flights_cache_ok:
  assumes "cache_ok d s" and "fetch_flights raw_feed d now s n = (out, s', n')"
  shows "cache_ok d s' \<and> sorted (map distance_nm out) \<and> list_all (in_range d s) out"
proof (cases "cache_fresh now s")
  case True
  with assms show ?thesis by (auto simp: fetch_flights_def cache_ok_def)
next
  case False
  show ?thesis
  proof (cases "fetch_body raw_feed d s n")
    case (Inl e)
    with False assms show ?thesis by (auto simp: fetch_flights_def cache_ok_def)
  next
    case (Inr flights)
    from fetch_body_ok [OF this] False Inr assms show ?thesis
      by (auto simp: fetch_flights_def cache_ok_def)
  qed
qed

lemma cache_ok_DataSource: "cache_ok d (DataSource la lo r)"
  by (simp add: cache_ok_def DataSource_def)

lemma keep_in_radius_zero_coords:
  "keep_in_radius d s (filter nonzero_coords raw) acc = keep_in_radius d s raw acc"
  by (induction raw arbitrary: acc) (auto simp: nonzero_coords_def Let_def split: sum.splits)

subsection \<open>Steps of the engine\<close>

lemma steps_ret: "reflp R \<Longrightarrow> steps R (ret x)"
  by (simp add: steps_def ret_def reflp_def)

lemma steps_lift: "reflp R \<Longrightarrow> steps R (lift r)"
  by (simp add: steps_def lift_def reflp_def)

lemma steps_get_flight: "reflp R \<Longrightarrow> steps R get_flight"
  by (simp add: steps_def get_flight_def reflp_def)

lemma steps_get_self: "reflp R \<Longrightarrow> steps R get_self"
  by (simp add: steps_def get_self_def reflp_def)

lemma steps_bnd:
  assumes "transp R" and m: "steps R m" and f: "\<And>x. steps R (f x)"
  shows "steps R (bnd m f)"
  unfolding steps_def
proof
  fix s
  obtain r s' where ms: "m s = (r, s')" by (cases "m s") auto
  from m have "R s (snd (m s))" unfolding steps_def by blast
  with ms have 1: "R s s'" by simp
  show "R s (snd (bnd m f s))"
  proof (cases r)
    case (Inl e)
    with ms 1 show ?thesis by (simp add: bnd_def)
  next
    case (Inr x)
    from f [of x] have "R s' (snd (f x s'))" unfolding steps_def by blast
    with 1 \<open>transp R\<close> have "R s (snd (f x s'))" by (blast dest: transpD)
    with ms Inr show ?thesis by (simp add: bnd_def)
  qed
qed

lemma steps_catch:
  assumes "transp R" and m: "steps R m" and h: "\<And>e. steps R (h e)"
  shows "steps R (catch m h)"
  unfolding steps_def
proof
  fix s
  obtain r s' where ms: "m s = (r, s')" by (cases "m s") auto
  from m have "R s (snd (m s))" unfolding steps_def by blast
  with ms have 1: "R s s'" by simp
  show "R s (snd (catch m h s))"
  proof (cases r)
    case (Inr x)
    with ms 1 show ?thesis by (simp add: catch_def)
  next
    case (Inl e)
    from h [of e] have "R s' (snd (h e s'))" unfolding steps_def by blast
    with 1 \<open>transp R\<close> have "R s (snd (h e s'))" by (blast dest: transpD)
    with ms Inl show ?thesis by (simp add: catch_def)
  qed
qed

lemma steps_prod: "(\<And>a b. steps R (f a b)) \<Longrightarrow> steps R (case p of (a, b) \<Rightarrow> f a b)"
  by (cases p) simp

lemma steps_option:
  "steps R a \<Longrightarrow> (\<And>x. steps R (f x)) \<Longrightarrow> steps R (case v of None \<Rightarrow> a | Some x \<Rightarrow> f x)"
  by (cases v) simp_all

lemma steps_if: "(c \<Longrightarrow> steps R a) \<Longrightarrow> (\<not> c \<Longrightarrow> steps R b) \<Longrightarrow> steps R (if c then a else b)"
  by simp

lemma steps_let: "steps R (f v) \<Longrightarrow> steps R (Let v f)"
  by simp

text \<open>The two relations are preorders.\<close>

lemma fills_refl: "fills f f"
  by (simp add: fills_def)

lemma fills_trans: "fills a b \<Longrightarrow> fills b c \<Longrightarrow> fills a c"
  by (simp add: fills_def)

lemma never_emptied_refl: "never_emptied r r"
  by (simp add: never_emptied_def)

lemma never_emptied_trans: "never_emptied a b \<Longrightarrow> never_emptied b c \<Longrightarrow> never_emptied a c"
  by (simp add: never_emptied_def)

lemma table_kept_refl: "table_kept t t"
  by (auto simp: table_kept_def never_emptied_refl)

lemma table_kept_trans: "table_kept a b \<Longrightarrow> table_kept b c \<Longrightarrow> table_kept a c"
  unfolding table_kept_def by (meson never_emptied_trans)

lemma fills_rel_preorder: "reflp fills_rel" "transp fills_rel"
  by (auto simp: reflp_def transp_def fills_rel_def fills_refl intro: fills_trans)

lemma kept_rel_preorder: "reflp kept_rel" "transp kept_rel"
  by (auto simp: reflp_def transp_def kept_rel_def table_kept_refl intro: table_kept_trans)

text \<open>Actions that leave the flight, or the table of aircraft, as it is.\<close>

lemma fills_rel_same_flight: "(\<And>s. fst (snd (m s)) = fst s) \<Longrightarrow> steps fills_rel m"
  by (simp add: steps_def fills_rel_def fills_refl)

lemma kept_rel_same_table:
  "(\<And>s. aircraft (snd (snd (m s))) = aircraft (snd s)) \<Longrightarrow> steps kept_rel m"
  by (simp add: steps_def kept_rel_def table_kept_refl)

lemma same_flight:
  "fst (snd (count_call s)) = fst s"
  "fst (snd (session_get w req s)) = fst s"
  "fst (snd (miss_add cs s)) = fst s"
  "fst (snd (set_self g s)) = fst s"
  "fst (snd (select_aircraft w hex s)) = fst s"
  "fst (snd (select_route w cs since s)) = fst s"
  "fst (snd (select_airport w iata s)) = fst s"
  "fst (snd (write_aircraft w hex row s)) = fst s"
  "fst (snd (write_route w cs rrow s)) = fst s"
  "fst (snd (write_airport w iata arow s)) = fst s"
  by (simp_all add: count_call_def session_get_def miss_add_def set_self_def select_aircraft_def
      select_route_def select_airport_def write_aircraft_def write_route_def write_airport_def
      Let_def split: http_reply.splits)

lemma same_table:
  "aircraft (snd (snd (count_call s))) = aircraft (snd s)"
  "aircraft (snd (snd (session_get w req s))) = aircraft (snd s)"
  "aircraft (snd (snd (miss_add cs s))) = aircraft (snd s)"
  "aircraft (snd (snd (set_flight g s))) = aircraft (snd s)"
  "aircraft (snd (snd (select_aircraft w hex s))) = aircraft (snd s)"
  "aircraft (snd (snd (select_route w cs since s))) = aircraft (snd s)"
  "aircraft (snd (snd (select_airport w iata s))) = aircraft (snd s)"
  "aircraft (snd (snd (write_route w cs rrow s))) = aircraft (snd s)"
  "aircraft (snd (snd (write_airport w iata arow s))) = aircraft (snd s)"
  by (simp_all add: count_call_def session_get_def miss_add_def set_self_def set_flight_def
      select_aircraft_def select_route_def select_airport_def write_route_def write_airport_def
      Let_def split: http_reply.splits)

lemma fills_fill_from_aircraft: "fills f (fill_from_aircraft row f)"
  by (simp add: fills_def fill_from_aircraft_def Let_def)

lemma fills_enrich_from_callsign: "fills f (enrich_from_callsign f)"
  by (simp add: fills_def enrich_from_callsign_def Let_def split: option.splits)

lemma fills_apply_route: "fills f (apply_route row f)"
  by (simp add: fills_def apply_route_def Let_def)

lemma steps_fills_set_flight: "(\<And>f. fills f (g f)) \<Longrightarrow> steps fills_rel (set_flight g)"
  by (simp add: steps_def fills_rel_def set_flight_def)

lemmas steps_intros = steps_bnd steps_catch steps_prod steps_option steps_if steps_let
  steps_ret steps_lift steps_get_flight steps_get_self

lemmas fills_leaves = same_flight [THEN fills_rel_same_flight]
  steps_fills_set_flight [OF fills_apply_route]
  steps_fills_set_flight [OF fills_enrich_from_callsign]
  steps_fills_set_flight [OF fills_fill_from_aircraft]

lemmas kept_leaves = same_table [THEN kept_rel_same_table]

subsection \<open>The flight is only filled in\<close>

lemma fills_cache_aircraft: "steps fills_rel (cache_aircraft w hex reg ty op opi)"
  unfolding cache_aircraft_def
  by (intro steps_intros fills_rel_preorder fills_leaves)

lemma fills_airport_request: "steps fills_rel (airport_request w iata)"
  unfolding airport_request_def
  by (intro steps_intros fills_rel_preorder fills_leaves)

lemma fills_lookup_airport_name: "steps fills_rel (lookup_airport_name w iata)"
  unfolding lookup_airport_name_def
  by (intro steps_intros fills_rel_preorder fills_leaves fills_airport_request)

lemma fills_cache_item_aircraft: "steps fills_rel (cache_item_aircraft w item)"
  unfolding cache_item_aircraft_def
  by (intro steps_intros fills_rel_preorder fills_leaves fills_cache_aircraft)

lemma fills_route_request: "steps fills_rel (route_request w cs)"
  unfolding route_request_def cache_route_def
  by (intro steps_intros fills_rel_preorder fills_leaves fills_lookup_airport_name
      fills_cache_item_aircraft)

lemma fills_enrich_route: "steps fills_rel (enrich_route w cs)"
  unfolding enrich_route_def lookup_route_airlabs_def
  by (intro steps_intros fills_rel_preorder fills_leaves fills_route_request)

lemma fills_enrich: "steps fills_rel (enrich w)"
  unfolding enrich_def
  by (intro steps_intros fills_rel_preorder fills_leaves fills_enrich_route)

subsection \<open>Rows of aircraft are only filled in\<close>

lemma kept_write_new:
  "aircraft (snd s) hex = None \<Longrightarrow> kept_rel s (snd (write_aircraft w hex row s))"
  by (auto simp: kept_rel_def table_kept_def write_aircraft_def never_emptied_refl)

lemma kept_write_merged:
  "aircraft (snd s) hex = Some ex \<Longrightarrow> never_emptied ex row
     \<Longrightarrow> kept_rel s (snd (write_aircraft w hex row s))"
  by (auto simp: kept_rel_def table_kept_def write_aircraft_def never_emptied_refl)

lemma kept_cache_aircraft: "steps kept_rel (cache_aircraft w hex reg ty op opi)"
  unfolding steps_def
proof
  fix s :: "flight \<times> enricher"
  show "kept_rel s (snd (cache_aircraft w hex reg ty op opi s))"
  proof (cases "hex = [] \<or> sqlite_fails w SelectAircraft hex")
    case True
    then show ?thesis
      by (auto simp: cache_aircraft_def ret_def bnd_def select_aircraft_def kept_rel_def
          table_kept_refl)
  next
    case False
    show ?thesis
    proof (cases "aircraft (snd s) hex")
      case None
      with False kept_write_new [OF None] show ?thesis
        by (simp add: cache_aircraft_def bnd_def select_aircraft_def)
    next
      case (Some ex)
      let ?row = "ex\<lparr>ac_registration := (if reg \<noteq> [] \<and> ac_registration ex = [] then reg else ac_registration ex),
                        ac_typecode := (if ty \<noteq> [] \<and> ac_typecode ex = [] then ty else ac_typecode ex),
                        ac_operator := (if op \<noteq> [] \<and> ac_operator ex = [] then op else ac_operator ex),
                        ac_operator_icao := (if opi \<noteq> [] \<and> ac_operator_icao ex = [] then opi else ac_operator_icao ex),
                        ac_source := ''api_enriched'',
                        ac_updated_at := clock w\<rparr>"
      have "never_emptied ex ?row" by (simp add: never_emptied_def)
      from kept_write_merged [OF Some this] False Some show ?thesis
        by (simp add: cache_aircraft_def bnd_def select_aircraft_def Let_def ret_def kept_rel_def
            table_kept_refl)
    qed
  qed
qed

lemma kept_airport_request: "steps kept_rel (airport_request w iata)"
  unfolding airport_request_def
  by (intro steps_intros kept_rel_preorder kept_leaves)

lemma kept_lookup_airport_name: "steps kept_rel (lookup_airport_name w iata)"
  unfolding lookup_airport_name_def
  by (intro steps_intros kept_rel_preorder kept_leaves kept_airport_request)

lemma kept_cache_item_aircraft: "steps kept_rel (cache_item_aircraft w item)"
  unfolding cache_item_aircraft_def
  by (intro steps_intros kept_rel_preorder kept_leaves kept_cache_aircraft)

lemma kept_set_self_key: "steps kept_rel (set_self (\<lambda>en. en\<lparr>airlabs_key := k\<rparr>))"
  by (simp add: steps_def kept_rel_def set_self_def table_kept_refl)

lemma kept_set_self_max: "steps kept_rel (set_self (\<lambda>en. en\<lparr>max_api_calls := k\<rparr>))"
  by (simp add: steps_def kept_rel_def set_self_def table_kept_refl)

lemma kept_route_request: "steps kept_rel (route_request w cs)"
  unfolding route_request_def cache_route_def
  by (intro steps_intros kept_rel_preorder kept_leaves kept_lookup_airport_name
      kept_cache_item_aircraft kept_set_self_key kept_set_self_max)

lemma kept_enrich_route: "steps kept_rel (enrich_route w cs)"
  unfolding enrich_route_def lookup_route_airlabs_def
  by (intro steps_intros kept_rel_preorder kept_leaves kept_route_request)

lemma kept_enrich: "steps kept_rel (enrich w)"
  unfolding enrich_def
  by (intro steps_intros kept_rel_preorder kept_leaves kept_enrich_route)

subsection \<open>No exception leaves the remote lookup\<close>




subsection \<open>An exhausted budget\<close>

lemma lookup_airport_name_exhausted:
  "exhausted (snd s) \<Longrightarrow> snd (lookup_airport_name w iata s) = s"
  by (simp add: lookup_airport_name_def bnd_def select_airport_def get_self_def ret_def
      exhausted_def split: option.splits)

lemma enrich_route_exhausted:
  "exhausted (snd s) \<Longrightarrow> snd (snd (enrich_route w cs s)) = snd s"
  by (simp add: enrich_route_def bnd_def select_route_def set_flight_def get_self_def ret_def
      exhausted_def split: option.splits)

lemma enrich_exhausted: "exhausted en \<Longrightarrow> snd (snd (enrich w (f, en))) = en"
  by (simp add: enrich_def bnd_def get_self_def get_flight_def set_flight_def ret_def Let_def
      select_aircraft_def enrich_route_exhausted split: option.splits)

lemma enrich_each_exhausted: "exhausted en \<Longrightarrow> enrich_each calls en = en"
  by (induction calls arbitrary: en) (auto simp: enrich_exhausted)

lemma enrich_route_exhausted_local:
  "exhausted en \<Longrightarrow>
     fst (enrich_route w cs (f, en)) = fst (enrich_route w cs (f, en\<lparr>airlabs_key := []\<rparr>)) \<and>
     fst (snd (enrich_route w cs (f, en))) = fst (snd (enrich_route w cs (f, en\<lparr>airlabs_key := []\<rparr>)))"
  by (simp add: enrich_route_def bnd_def select_route_def set_flight_def get_self_def ret_def
      exhausted_def split: option.splits)

lemma enrich_exhausted_local:
  "exhausted en \<Longrightarrow>
     fst (enrich w (f, en)) = fst (enrich w (f, en\<lparr>airlabs_key := []\<rparr>)) \<and>
     fst (snd (enrich w (f, en))) = fst (snd (enrich w (f, en\<lparr>airlabs_key := []\<rparr>)))"
  by (simp add: enrich_def bnd_def get_self_def get_flight_def set_flight_def ret_def Let_def
      select_aircraft_def enrich_route_exhausted_local split: option.splits)

lemma rate_limit_exhausts:
  assumes "0 \<le> api_calls_this_session en"
    and "airlabs w (length (requests_sent en)) (GetFlights cs) = Reply 429 body"
  shows "exhausted (snd (snd (lookup_route_airlabs w cs (f, en))))"
  using assms
  by (simp add: lookup_route_airlabs_def catch_def route_request_def bnd_def count_call_def
      set_self_def session_get_def Let_def exhausted_def)

subsection \<open>The import is one upsert\<close>

lemma insert_or_replace_append:
  "insert_or_replace (xs @ ys) t = insert_or_replace ys (insert_or_replace xs t)"
  by (simp add: insert_or_replace_def)

lemma insert_or_replace_map_add: "insert_or_replace batch t = t ++ map_of (rev batch)"
proof (induction batch arbitrary: t)
  case Nil
  then show ?case by (simp add: insert_or_replace_def)
next
  case (Cons p batch)
  obtain hex row where p: "p = (hex, row)" by (cases p)
  have "insert_or_replace (p # batch) t = insert_or_replace batch (t(hex \<mapsto> row))"
    by (simp add: insert_or_replace_def p)
  also have "\<dots> = t(hex \<mapsto> row) ++ map_of (rev batch)" by (rule Cons.IH)
  also have "\<dots> = t ++ map_of (rev (p # batch))"
    by (simp add: p map_add_upd_left fun_eq_iff map_add_def split: option.splits)
  finally show ?case .
qed

lemma seed_rows_batch:
  "seed_rows cm src now m rows batch t = (b', t')
     \<Longrightarrow> insert_or_replace b' t' = insert_or_replace (batch @ csv_batch cm src now m rows) t"
proof (induction rows arbitrary: batch t)
  case Nil
  then show ?case by (simp add: csv_batch_def)
next
  case (Cons row rows)
  show ?case
  proof (cases "length row < m \<or> py_lower (get_col cm row ''icao24'' []) = []")
    case True
    with Cons.prems have "seed_rows cm src now m rows batch t = (b', t')"
      by (cases "length row < m") (simp_all add: Let_def)
    from Cons.IH [OF this] True show ?thesis by (auto simp: csv_batch_def)
  next
    case False
    let ?b = "batch @ [csv_tuple cm src now row (py_lower (get_col cm row ''icao24'' []))]"
    have split: "batch @ csv_batch cm src now m (row # rows) = ?b @ csv_batch cm src now m rows"
      using False by (simp add: csv_batch_def)
    show ?thesis
    proof (cases "length ?b \<ge> 5000")
      case True
      with False Cons.prems
      have "seed_rows cm src now m rows [] (insert_or_replace ?b t) = (b', t')"
        by (simp add: Let_def)
      from Cons.IH [OF this] show ?thesis
        by (simp only: split insert_or_replace_append append_Nil)
    next
      case nf: False
      with False Cons.prems have "seed_rows cm src now m rows ?b t = (b', t')"
        by (simp add: Let_def)
      from Cons.IH [OF this] show ?thesis by (simp only: split)
    qed
  qed
qed

lemma seed_csv_upsert:
  "seed_csv src now m (header # rows) t
     = Inr (t ++ map_of (rev (csv_batch (col_map_of (clean_header header)) src now m rows)))"
proof -
  obtain b' t' where r: "seed_rows (col_map_of (clean_header header)) src now m rows [] t = (b', t')"
    by (cases "seed_rows (col_map_of (clean_header header)) src now m rows [] t") auto
  from seed_rows_batch [OF r]
  have "insert_or_replace b' t'
      = t ++ map_of (rev (csv_batch (col_map_of (clean_header header)) src now m rows))"
    by (simp add: insert_or_replace_map_add)
  moreover have "b' = [] \<Longrightarrow> insert_or_replace b' t' = t'"
    by (simp add: insert_or_replace_def)
  ultimately show ?thesis using r by (auto simp: seed_csv_def)
qed

section \<open>The claims\<close>

subsection \<open>C1: enrichment fills gaps only\<close>

text \<open>
  Claim C1. For every flight, every state of the engine and its database, and every
  world (replies of the remote API, failures of SQLite), \<^verbatim>\<open>enrich\<close> changes a
  field of the record only if the field was empty before the call: airline, aircraft
  type, registration, origin and destination code and name keep a value they already
  have, and no other field is written. This holds of the record as the call leaves it,
  whether it returns or raises.
\<close>

theorem enrich_fills_only_gaps: "fills f (fst (snd (enrich w (f, en))))"
proof -
  have "fills_rel (f, en) (snd (enrich w (f, en)))"
    using fills_enrich [of w] unfolding steps_def by blast
  then show ?thesis by (simp add: fills_rel_def)
qed

text \<open>
  The example of the claim: the record has airline RYANAIR, the row of its hex address
  has operator DIFFERENT; after the call the airline is still RYANAIR, while the empty
  registration and origin were filled.
\<close>

theorem enrich_fills_only_gaps_witness:
  "airline ex_ryanair = ''RYANAIR''
   \<and> map_option ac_operator (aircraft ex_engine (py_strip (py_lower (hex_code ex_ryanair)))) = Some ''DIFFERENT''
   \<and> airline (fst (snd (enrich ex_world (ex_ryanair, ex_engine)))) = ''RYANAIR''
   \<and> registration (fst (snd (enrich ex_world (ex_ryanair, ex_engine)))) = ''EI-DCP''
   \<and> origin_iata (fst (snd (enrich ex_world (ex_ryanair, ex_engine)))) = ''STN''"
proof -
  have a: "airline ex_ryanair = ''RYANAIR''" by (simp add: ex_ryanair_def Flight_def)
  with enrich_fills_only_gaps [of ex_ryanair ex_world ex_engine]
  have b: "airline (fst (snd (enrich ex_world (ex_ryanair, ex_engine)))) = ''RYANAIR''"
    by (simp add: fills_def)
  have c: "map_option ac_operator (aircraft ex_engine (py_strip (py_lower (hex_code ex_ryanair)))) = Some ''DIFFERENT''"
    by code_simp
  have d: "registration (fst (snd (enrich ex_world (ex_ryanair, ex_engine)))) = ''EI-DCP''"
    by code_simp
  have e: "origin_iata (fst (snd (enrich ex_world (ex_ryanair, ex_engine)))) = ''STN''"
    by code_simp
  from a b c d e show ?thesis by blast
qed

subsection \<open>C2: writes to the table of aircraft\<close>

text \<open>
  Claim C2 as stated fails for the bulk import. The table holds a row for 4ca123 with
  registration EI-DCP and type B738; the imported file has the columns icao24,
  registration and operator, and a line for 4CA123 with an empty registration. After
  \<^verbatim>\<open>seed_from_file\<close> the registration and the type of the row are empty:
  \<^verbatim>\<open>INSERT OR REPLACE\<close> writes the whole row.
\<close>

theorem seed_import_overwrites_filled_fields:
  "map_option ac_registration (aircraft ex_engine ''4ca123'') = Some ''EI-DCP''
   \<and> map_option ac_typecode (aircraft ex_engine ''4ca123'') = Some ''B738''
   \<and> (case seed_from_file 7 ex_csv (aircraft ex_engine) of
         Inl e \<Rightarrow> None
       | Inr t \<Rightarrow> map_option ac_registration (t ''4ca123'')) = Some []
   \<and> (case seed_from_file 7 ex_csv (aircraft ex_engine) of
         Inl e \<Rightarrow> None
       | Inr t \<Rightarrow> map_option ac_typecode (t ''4ca123'')) = Some []"
  by code_simp

text \<open>
  Claim C2, amended. The merge of an API result (\<^verbatim>\<open>_cache_aircraft\<close>) and
  \<^verbatim>\<open>enrich\<close> as a whole never remove a row and never leave empty a field of a
  row that was filled before. The bulk imports (\<^verbatim>\<open>seed_from_file\<close>,
  \<^verbatim>\<open>_seed_from_opensky\<close>) are one upsert keyed by hex address: a row whose
  hex address is in the file is replaced by the values of the last line of the file with
  that address (an absent or empty cell is the empty string), every other row stays as
  it is.
\<close>

theorem aircraft_rows_merged_or_replaced:
  "table_kept (aircraft en) (aircraft (snd (snd (cache_aircraft w hex reg ty op opi (f, en)))))
   \<and> table_kept (aircraft en) (aircraft (snd (snd (enrich w (f, en)))))
   \<and> seed_from_file now (header # rows) t
       = Inr (t ++ map_of (rev (csv_batch (col_map_of (clean_header header)) ''csv_import'' now 0 rows)))
   \<and> seed_from_opensky now (Inr (header # rows)) t
       = t ++ map_of (rev (csv_batch (col_map_of (clean_header header)) ''opensky'' now 3 rows))"
proof -
  have "kept_rel (f, en) (snd (cache_aircraft w hex reg ty op opi (f, en)))"
    using kept_cache_aircraft [of w hex reg ty op opi] unfolding steps_def by blast
  moreover have "kept_rel (f, en) (snd (enrich w (f, en)))"
    using kept_enrich [of w] unfolding steps_def by blast
  ultimately show ?thesis
    by (simp add: kept_rel_def seed_from_file_def seed_from_opensky_def seed_csv_upsert)
qed

text \<open>
  On the row of 4ca123 an API result without registration leaves EI-DCP in place and
  fills the empty operator code; the import of the file above is the upsert of its one
  line.
\<close>

theorem aircraft_rows_merged_or_replaced_witness:
  "aircraft ex_engine ''4ca123'' = Some ex_row
   \<and> ac_registration ex_row = ''EI-DCP''
   \<and> map_option ac_registration
        (aircraft (snd (snd (cache_aircraft ex_world ''4ca123'' [] ''A320'' [] ''RYR'' (ex_ryanair, ex_engine))))
           ''4ca123'') = Some ''EI-DCP''
   \<and> map_option ac_operator_icao
        (aircraft (snd (snd (cache_aircraft ex_world ''4ca123'' [] ''A320'' [] ''RYR'' (ex_ryanair, ex_engine))))
           ''4ca123'') = Some ''RYR''
   \<and> seed_from_file 7 ex_csv (aircraft ex_engine)
       = Inr (aircraft ex_engine ++ map_of (rev (csv_batch
           (col_map_of (clean_header [''icao24'', ''registration'', ''operator''])) ''csv_import'' 7 0
           [[''4CA123'', [], ''Ryanair'']])))"
proof -
  have a: "aircraft ex_engine ''4ca123'' = Some ex_row"
    by (simp add: ex_engine_def Enricher_def)
  have b: "ac_registration ex_row = ''EI-DCP''" by (simp add: ex_row_def)
  have c: "map_option ac_operator_icao
        (aircraft (snd (snd (cache_aircraft ex_world ''4ca123'' [] ''A320'' [] ''RYR'' (ex_ryanair, ex_engine))))
           ''4ca123'') = Some ''RYR''"
    by code_simp
  have d: "map_option ac_registration
        (aircraft (snd (snd (cache_aircraft ex_world ''4ca123'' [] ''A320'' [] ''RYR'' (ex_ryanair, ex_engine))))
           ''4ca123'') = Some ''EI-DCP''"
    by code_simp
  from aircraft_rows_merged_or_replaced [of ex_engine ex_world "''4ca123''" "[]" "''A320''" "[]"
      "''RYR''" ex_ryanair 7 "[''icao24'', ''registration'', ''operator'']"
      "[[''4CA123'', [], ''Ryanair'']]" "aircraft ex_engine"]
  have e: "seed_from_file 7 ex_csv (aircraft ex_engine)
       = Inr (aircraft ex_engine ++ map_of (rev (csv_batch
           (col_map_of (clean_header [''icao24'', ''registration'', ''operator''])) ''csv_import'' 7 0
           [[''4CA123'', [], ''Ryanair'']])))"
    by (simp add: ex_csv_def)
  from a b c d e show ?thesis by blast
qed

subsection \<open>C3: exceptions of \<^verbatim>\<open>enrich\<close>\<close>




subsection \<open>C4: a failed fetch keeps the cache\<close>

text \<open>
  Claim C4. If the raw fetch raises, or the distance computation raises on a record that
  reaches it, \<^verbatim>\<open>fetch_flights\<close> returns the previous cache and leaves the
  provider (cache and time of the last fetch) unchanged; the result is a list, never
  the exception. The same holds of the override of \<^verbatim>\<open>FR24Source\<close>.
\<close>

theorem fetch_failure_returns_previous_cache:
  assumes "raw_feed n = Inl e \<or>
     (\<exists>raw. raw_feed n = Inr raw \<and>
        (\<exists>f \<in> set raw. \<not> grounded f \<and> latitude f \<noteq> 0 \<and> longitude f \<noteq> 0 \<and>
           isl (d (lat s) (lon s) (latitude f) (longitude f))))"
  shows "fst (fetch_flights raw_feed d now s n) = cache s
     \<and> fst (snd (fetch_flights raw_feed d now s n)) = s
     \<and> fst (fr24_fetch_flights raw_feed d now s n) = cache s
     \<and> fst (snd (fr24_fetch_flights raw_feed d now s n)) = s"
proof -
  have "isl (fetch_body raw_feed d s n) \<and> isl (fr24_fetch_body raw_feed d s n)"
    using assms
  proof
    assume "raw_feed n = Inl e"
    then show ?thesis by (simp add: fetch_body_def fr24_fetch_body_def)
  next
    assume "\<exists>raw. raw_feed n = Inr raw \<and>
        (\<exists>f \<in> set raw. \<not> grounded f \<and> latitude f \<noteq> 0 \<and> longitude f \<noteq> 0 \<and>
           isl (d (lat s) (lon s) (latitude f) (longitude f)))"
    then obtain raw f where raw: "raw_feed n = Inr raw" and f: "f \<in> set raw" "\<not> grounded f"
      "latitude f \<noteq> 0" "longitude f \<noteq> 0" "isl (d (lat s) (lon s) (latitude f) (longitude f))"
      by blast
    have "isl (keep_in_radius d s raw [])" using f by (rule keep_in_radius_raises)
    moreover have "isl (fr24_keep d s raw [])" using f by (rule fr24_keep_raises)
    ultimately show ?thesis using raw
      by (auto simp: fetch_body_def fr24_fetch_body_def isl_def)
  qed
  then show ?thesis
    by (auto simp: fetch_flights_def fr24_fetch_flights_def isl_def)
qed

text \<open>
  A provider with one cached record, 100 seconds after its last fetch: a raw fetch that
  raises, and a distance computation that raises, both give back the cached list.
\<close>

theorem fetch_failure_returns_previous_cache_witness:
  "ex_failing_feed 1 = Inl ConnectionError
   \<and> fetch_flights ex_failing_feed ex_dist 200 ex_cached 1 = (cache ex_cached, ex_cached, 2)
   \<and> fst (fr24_fetch_flights ex_failing_feed ex_dist 200 ex_cached 1) = cache ex_cached
   \<and> fst (snd (fr24_fetch_flights ex_failing_feed ex_dist 200 ex_cached 1)) = ex_cached
   \<and> fetch_flights ex_feed ex_raising_dist 200 ex_cached 1 = (cache ex_cached, ex_cached, 2)"
proof -
  have h: "ex_failing_feed 1 = Inl ConnectionError" by code_simp
  have c: "snd (snd (fetch_flights ex_failing_feed ex_dist 200 ex_cached 1)) = 2"
    by code_simp
  have r: "fetch_flights ex_feed ex_raising_dist 200 ex_cached 1 = (cache ex_cached, ex_cached, 2)"
    by code_simp
  from fetch_failure_returns_previous_cache [where raw_feed = ex_failing_feed and n = 1
      and e = ConnectionError and s = ex_cached and d = ex_dist and now = 200]
    h c r show ?thesis
    by (simp add: prod_eq_iff)
qed

subsection \<open>C5: the result is within the radius and sorted\<close>



subsection \<open>C6: records on the ground are left out\<close>

text \<open>
  Claim C6. No record of the list returned by \<^verbatim>\<open>fetch_flights\<close> is flagged
  on the ground, and none has both an altitude below 100 ft and a ground speed below
  50 kn. A raw record that is neither, has non-zero coordinates and a distance within
  the radius is in the result of the fetch that read it (with its distance set).
\<close>

theorem grounded_records_excluded:
  assumes "cache_ok d s"
  shows "(\<forall>f \<in> set (fst (fetch_flights raw_feed d now s n)).
            \<not> on_ground f \<and> \<not> (altitude f < 100 \<and> ground_speed f < 50))
     \<and> (\<not> cache_fresh now s \<and> raw_feed n = Inr raw \<and> fetch_body raw_feed d s n = Inr out
          \<and> r \<in> set raw \<and> \<not> on_ground r \<and> \<not> (altitude r < 100 \<and> ground_speed r < 50)
          \<and> latitude r \<noteq> 0 \<and> longitude r \<noteq> 0
          \<and> d (lat s) (lon s) (latitude r) (longitude r) = Inr x \<and> x \<le> radius_nm s
        \<longrightarrow> r\<lparr>distance_nm := x\<rparr> \<in> set (fst (fetch_flights raw_feed d now s n)))"
proof (intro conjI impI)
  obtain out' s' n' where r: "fetch_flights raw_feed d now s n = (out', s', n')"
    by (cases "fetch_flights raw_feed d now s n") auto
  from fetch_flights_cache_ok [OF assms r] have "list_all (in_range d s) out'" by simp
  with r show "\<forall>f \<in> set (fst (fetch_flights raw_feed d now s n)).
            \<not> on_ground f \<and> \<not> (altitude f < 100 \<and> ground_speed f < 50)"
    by (simp add: list_all_iff in_range_def grounded_def)
next
  assume a: "\<not> cache_fresh now s \<and> raw_feed n = Inr raw \<and> fetch_body raw_feed d s n = Inr out
          \<and> r \<in> set raw \<and> \<not> on_ground r \<and> \<not> (altitude r < 100 \<and> ground_speed r < 50)
          \<and> latitude r \<noteq> 0 \<and> longitude r \<noteq> 0
          \<and> d (lat s) (lon s) (latitude r) (longitude r) = Inr x \<and> x \<le> radius_nm s"
  then obtain flights where k: "keep_in_radius d s raw [] = Inr flights"
    and o: "out = sort_key distance_nm flights"
    by (auto simp: fetch_body_def split: sum.splits)
  from a have "\<not> grounded r" by (simp add: grounded_def)
  with a keep_in_radius_includes [OF k, of r x] have "r\<lparr>distance_nm := x\<rparr> \<in> set flights"
    by simp
  with a o show "r\<lparr>distance_nm := x\<rparr> \<in> set (fst (fetch_flights raw_feed d now s n))"
    by (simp add: fetch_flights_def)
qed

text \<open>
  Of three raw records at 1.2 nm (flagged on the ground at 38000 ft; altitude 50 and
  speed 20; altitude 50 and speed 80) the result holds the third alone.
\<close>

theorem grounded_records_excluded_witness:
  "cache_ok ex_dist ex_source
   \<and> on_ground ex_parked \<and> altitude ex_taxi = 50 \<and> ground_speed ex_taxi = 20
   \<and> altitude ex_rolling = 50 \<and> ground_speed ex_rolling = 80
   \<and> fst (fetch_flights ex_ground_feed ex_dist 100 ex_source 0) = [ex_rolling\<lparr>distance_nm := 1.2\<rparr>]
   \<and> ex_rolling\<lparr>distance_nm := 1.2\<rparr> \<in> set (fst (fetch_flights ex_ground_feed ex_dist 100 ex_source 0))"
proof -
  have ok: "cache_ok ex_dist ex_source"
    by code_simp
  have out: "fst (fetch_flights ex_ground_feed ex_dist 100 ex_source 0) = [ex_rolling\<lparr>distance_nm := 1.2\<rparr>]"
    by code_simp
  have body: "fetch_body ex_ground_feed ex_dist ex_source 0 = Inr [ex_rolling\<lparr>distance_nm := 1.2\<rparr>]"
    by code_simp
  have pre: "\<not> cache_fresh 100 ex_source \<and> ex_ground_feed 0 = Inr [ex_parked, ex_taxi, ex_rolling]
     \<and> ex_rolling \<in> set [ex_parked, ex_taxi, ex_rolling] \<and> \<not> on_ground ex_rolling
     \<and> \<not> (altitude ex_rolling < 100 \<and> ground_speed ex_rolling < 50)
     \<and> latitude ex_rolling \<noteq> 0 \<and> longitude ex_rolling \<noteq> 0
     \<and> ex_dist (lat ex_source) (lon ex_source) (latitude ex_rolling) (longitude ex_rolling) = Inr 1.2
     \<and> 1.2 \<le> radius_nm ex_source"
    by code_simp
  from grounded_records_excluded [OF ok, of ex_ground_feed 100 0 "[ex_parked, ex_taxi, ex_rolling]"
      "[ex_rolling\<lparr>distance_nm := 1.2\<rparr>]" ex_rolling "1.2"] pre body
  have "ex_rolling\<lparr>distance_nm := 1.2\<rparr> \<in> set (fst (fetch_flights ex_ground_feed ex_dist 100 ex_source 0))"
    by blast
  moreover have "on_ground ex_parked \<and> altitude ex_taxi = 50 \<and> ground_speed ex_taxi = 20
     \<and> altitude ex_rolling = 50 \<and> ground_speed ex_rolling = 80"
    by code_simp
  ultimately show ?thesis using ok out by blast
qed

subsection \<open>C7: an exhausted budget\<close>

text \<open>
  Claim C7. Once the call counter has reached the maximum, a call of
  \<^verbatim>\<open>enrich\<close>, and any sequence of such calls on any flights, sends no request
  and leaves the budget exhausted; the record is enriched exactly as by an engine with
  no API key, that is from the local tables and the built-in table. The lookup of an
  airport name sends no request either. An HTTP 429 on a route lookup leaves the engine
  in that state.
\<close>

theorem exhausted_budget_stops_remote_lookups:
  "(exhausted en \<longrightarrow>
      requests_sent (snd (snd (enrich w (f, en)))) = requests_sent en
      \<and> exhausted (snd (snd (enrich w (f, en))))
      \<and> requests_sent (enrich_each calls en) = requests_sent en
      \<and> exhausted (enrich_each calls en)
      \<and> fst (snd (enrich w (f, en))) = fst (snd (enrich w (f, en\<lparr>airlabs_key := []\<rparr>)))
      \<and> requests_sent (snd (snd (lookup_airport_name w iata (f, en)))) = requests_sent en)
   \<and> (0 \<le> api_calls_this_session en
        \<and> airlabs w (length (requests_sent en)) (GetFlights cs) = Reply 429 body
      \<longrightarrow> exhausted (snd (snd (lookup_route_airlabs w cs (f, en)))))"
  by (simp add: enrich_exhausted enrich_each_exhausted enrich_exhausted_local rate_limit_exhausts
      lookup_airport_name_exhausted)

text \<open>
  With 200 of 200 calls used, a callsign never seen before sends no request, while the
  registration and the cached route of RYR4421 are still filled in. After a reply 429
  the next call for another callsign sends no request either.
\<close>

theorem exhausted_budget_stops_remote_lookups_witness:
  "exhausted ex_spent
   \<and> requests_sent (snd (snd (enrich ex_world (ex_unknown, ex_spent)))) = []
   \<and> requests_sent (enrich_each [(ex_world, ex_unknown), (ex_world, ex_ryanair)] ex_spent) = []
   \<and> origin_iata (fst (snd (enrich ex_world (ex_ryanair, ex_spent)))) = ''STN''
   \<and> registration (fst (snd (enrich ex_world (ex_ryanair, ex_spent)))) = ''EI-DCP''
   \<and> airlabs ex_rate_limited (length (requests_sent ex_engine)) (GetFlights ''XYZ123'') = Reply 429 None
   \<and> exhausted (snd (snd (lookup_route_airlabs ex_rate_limited ''XYZ123'' (ex_unknown, ex_engine))))
   \<and> requests_sent (snd (snd (enrich ex_world
        (ex_ryanair, snd (snd (lookup_route_airlabs ex_rate_limited ''XYZ123'' (ex_unknown, ex_engine)))))))
       = [GetFlights ''XYZ123'']"
proof -
  have a: "exhausted ex_spent"
    by (simp add: exhausted_def ex_spent_def ex_engine_def Enricher_def)
  have b: "requests_sent ex_spent = []"
    by (simp add: ex_spent_def ex_engine_def Enricher_def)
  have c: "origin_iata (fst (snd (enrich ex_world (ex_ryanair, ex_spent)))) = ''STN''"
    by code_simp
  have d: "registration (fst (snd (enrich ex_world (ex_ryanair, ex_spent)))) = ''EI-DCP''"
    by code_simp
  have e: "0 \<le> api_calls_this_session ex_engine
     \<and> airlabs ex_rate_limited (length (requests_sent ex_engine)) (GetFlights ''XYZ123'') = Reply 429 None"
    by (simp add: ex_engine_def Enricher_def ex_rate_limited_def ex_world_def)
  have g: "requests_sent (snd (snd (lookup_route_airlabs ex_rate_limited ''XYZ123'' (ex_unknown, ex_engine))))
      = [GetFlights ''XYZ123'']"
    by code_simp
  from exhausted_budget_stops_remote_lookups [where en = ex_spent and w = ex_world
      and f = ex_unknown and calls = "[(ex_world, ex_unknown), (ex_world, ex_ryanair)]"] a b
  have 0: "requests_sent (snd (snd (enrich ex_world (ex_unknown, ex_spent)))) = []
     \<and> requests_sent (enrich_each [(ex_world, ex_unknown), (ex_world, ex_ryanair)] ex_spent) = []"
    by simp
  from exhausted_budget_stops_remote_lookups [where en = ex_engine and w = ex_rate_limited
      and f = ex_unknown and cs = "''XYZ123''" and body = None] e
  have 1: "exhausted (snd (snd (lookup_route_airlabs ex_rate_limited ''XYZ123'' (ex_unknown, ex_engine))))"
    by blast
  then have h: "exhausted (snd (snd (lookup_route_airlabs ex_rate_limited ''XYZ123'' (ex_unknown, ex_engine))))" .
  from exhausted_budget_stops_remote_lookups [where
      en = "snd (snd (lookup_route_airlabs ex_rate_limited ''XYZ123'' (ex_unknown, ex_engine)))"
      and w = ex_world and f = ex_ryanair] h g
  have 2: "requests_sent (snd (snd (enrich ex_world
        (ex_ryanair, snd (snd (lookup_route_airlabs ex_rate_limited ''XYZ123'' (ex_unknown, ex_engine)))))))
       = [GetFlights ''XYZ123'']"
    by simp
  from a c d e 0 1 2 show ?thesis by blast
qed

subsection \<open>C8: the cache within its TTL\<close>

text \<open>
  Claim C8 as stated fails when the first of two calls finds no flight. A new provider is
  called at time 100 and its raw fetch returns no record; called again at time 102,
  within the TTL of 5 seconds, it fetches again (the second raw fetch) and this time
  returns a record: the test of the cache requires a non-empty cache.
\<close>

theorem second_call_refetches_after_empty_result:
  "\<not> cache_fresh 100 ex_source
   \<and> fetch_flights ex_empty_then_near ex_dist 100 ex_source 0
       = ([], ex_source\<lparr>cache := [], last_fetch_time := 100\<rparr>, 1)
   \<and> (102::real) - 100 < cache_ttl (ex_source\<lparr>cache := [], last_fetch_time := 100\<rparr>)
   \<and> fetch_flights ex_empty_then_near ex_dist 102 (ex_source\<lparr>cache := [], last_fetch_time := 100\<rparr>) 1
       = ([ex_near\<lparr>distance_nm := 1.2\<rparr>],
          ex_source\<lparr>cache := [ex_near\<lparr>distance_nm := 1.2\<rparr>], last_fetch_time := 102\<rparr>, 2)"
  by code_simp

text \<open>
  Claim C8, amended. If now minus the time of the last fetch is below the TTL and the
  cache is non-empty, \<^verbatim>\<open>fetch_flights\<close> returns the cache and leaves the
  provider and the number of raw fetches unchanged. When a call fetches and its result is
  non-empty, a second call within the TTL of the first returns the same list, with one
  raw fetch in all.
\<close>

theorem cache_hit_within_ttl:
  "(cache_fresh now s \<longrightarrow> fetch_flights raw_feed d now s n = (cache s, s, n))
   \<and> (\<not> cache_fresh now1 s \<and> fetch_body raw_feed d s n = Inr out \<and> out \<noteq> []
        \<and> now2 - now1 < cache_ttl s
      \<longrightarrow> fetch_flights raw_feed d now1 s n = (out, s\<lparr>cache := out, last_fetch_time := now1\<rparr>, Suc n)
        \<and> fetch_flights raw_feed d now2 (s\<lparr>cache := out, last_fetch_time := now1\<rparr>) (Suc n)
            = (out, s\<lparr>cache := out, last_fetch_time := now1\<rparr>, Suc n))"
  by (simp add: fetch_flights_def cache_fresh_def)

text \<open>
  A provider with a fresh, non-empty cache does not touch a raw feed that would raise;
  a new provider fetches once at time 100 and answers from the cache at time 102.
\<close>

theorem cache_hit_within_ttl_witness:
  "cache_fresh 102 ex_cached
   \<and> fetch_flights ex_failing_feed ex_dist 102 ex_cached 1 = (cache ex_cached, ex_cached, 1)
   \<and> \<not> cache_fresh 100 ex_source
   \<and> fetch_flights ex_feed ex_dist 100 ex_source 0 = (cache ex_cached, ex_cached, 1)
   \<and> fetch_flights ex_feed ex_dist 102 ex_cached 1 = (cache ex_cached, ex_cached, 1)"
proof -
  have a: "cache_fresh 102 ex_cached" by code_simp
  have b: "\<not> cache_fresh 100 ex_source \<and>
      fetch_body ex_feed ex_dist ex_source 0 = Inr [ex_near\<lparr>distance_nm := 1.2\<rparr>]
      \<and> [ex_near\<lparr>distance_nm := 1.2\<rparr>] \<noteq> [] \<and> (102::real) - 100 < cache_ttl ex_source"
    by code_simp
  have c: "ex_source\<lparr>cache := [ex_near\<lparr>distance_nm := 1.2\<rparr>], last_fetch_time := 100\<rparr> = ex_cached"
    by (simp add: ex_cached_def)
  from cache_hit_within_ttl [of 102 ex_cached ex_failing_feed ex_dist 1] a
  have 1: "fetch_flights ex_failing_feed ex_dist 102 ex_cached 1 = (cache ex_cached, ex_cached, 1)"
    by blast
  from cache_hit_within_ttl [where s = ex_source and raw_feed = ex_feed and d = ex_dist
      and n = 0 and ?now1.0 = 100 and ?now2.0 = 102 and out = "[ex_near\<lparr>distance_nm := 1.2\<rparr>]"] b
  have 2: "fetch_flights ex_feed ex_dist 100 ex_source 0 = (cache ex_cached, ex_cached, 1)
     \<and> fetch_flights ex_feed ex_dist 102 ex_cached 1 = (cache ex_cached, ex_cached, 1)"
    by (simp add: ex_cached_def)
  from a b 1 2 show ?thesis by blast
qed

subsection \<open>C10: records on the equator or the prime meridian\<close>

text \<open>
  Claim C10. Raw records whose latitude is 0 or whose longitude is 0 have no effect on
  \<^verbatim>\<open>fetch_flights\<close>: the call returns the same list, provider and count as
  on the raw feed without them, and raises nothing for them. Every record of the result
  has a non-zero latitude and a non-zero longitude.
\<close>

theorem zero_coordinate_records_dropped:
  "fetch_flights (\<lambda>k. map_sum id (filter nonzero_coords) (raw_feed k)) d now s n
     = fetch_flights raw_feed d now s n
   \<and> (cache_ok d s \<longrightarrow>
        (\<forall>f \<in> set (fst (fetch_flights raw_feed d now s n)). latitude f \<noteq> 0 \<and> longitude f \<noteq> 0))"
proof (intro conjI impI)
  have "fetch_body (\<lambda>k. map_sum id (filter nonzero_coords) (raw_feed k)) d s n
      = fetch_body raw_feed d s n"
    by (cases "raw_feed n") (simp_all add: fetch_body_def keep_in_radius_zero_coords)
  then show "fetch_flights (\<lambda>k. map_sum id (filter nonzero_coords) (raw_feed k)) d now s n
     = fetch_flights raw_feed d now s n"
    by (simp add: fetch_flights_def)
next
  assume ok: "cache_ok d s"
  obtain out' s' n' where r: "fetch_flights raw_feed d now s n = (out', s', n')"
    by (cases "fetch_flights raw_feed d now s n") auto
  from fetch_flights_cache_ok [OF ok r] have "list_all (in_range d s) out'" by simp
  with r show "\<forall>f \<in> set (fst (fetch_flights raw_feed d now s n)). latitude f \<noteq> 0 \<and> longitude f \<noteq> 0"
    by (simp add: list_all_iff in_range_def)
qed

text \<open>
  Two airborne records, one on the equator and one on the prime meridian at 1.2 nm from
  the observer, are dropped; the third record of the feed is returned.
\<close>

theorem zero_coordinate_records_dropped_witness:
  "cache_ok ex_dist ex_source
   \<and> latitude ex_equator = 0 \<and> longitude ex_meridian = 0
   \<and> \<not> grounded ex_equator \<and> \<not> grounded ex_meridian
   \<and> ex_dist (lat ex_source) (lon ex_source) (latitude ex_meridian) (longitude ex_meridian) = Inr 1.2
   \<and> fst (fetch_flights ex_zero_feed ex_dist 100 ex_source 0) = [ex_near\<lparr>distance_nm := 1.2\<rparr>]
   \<and> fetch_flights (\<lambda>k. map_sum id (filter nonzero_coords) (ex_zero_feed k)) ex_dist 100 ex_source 0
       = fetch_flights ex_zero_feed ex_dist 100 ex_source 0"
proof -
  have ok: "cache_ok ex_dist ex_source"
    by code_simp
  have out: "fst (fetch_flights ex_zero_feed ex_dist 100 ex_source 0) = [ex_near\<lparr>distance_nm := 1.2\<rparr>]"
    by code_simp
  have pre: "latitude ex_equator = 0 \<and> longitude ex_meridian = 0
   \<and> \<not> grounded ex_equator \<and> \<not> grounded ex_meridian
   \<and> ex_dist (lat ex_source) (lon ex_source) (latitude ex_meridian) (longitude ex_meridian) = Inr 1.2"
    by code_simp
  from zero_coordinate_records_dropped [of ex_zero_feed ex_dist 100 ex_source 0] ok out pre
  show ?thesis by blast
qed

end
